theory Spec2Isabelle
  imports Complex_Main "HOL-Library.AList"
begin

section \<open>JavaScript numbers\<close>

text \<open>
  A JavaScript \<^verbatim>\<open>number\<close> is modelled as a real number or one of the three
  non-finite values. Arithmetic on finite values is exact (rounding, overflow and the
  sign of zero are not modelled); the non-finite cases follow IEEE 754 as JavaScript
  implements it: a division of a non-zero number by zero is infinite, \<^verbatim>\<open>0/0\<close>,
  \<^verbatim>\<open>Infinity * 0\<close> and \<^verbatim>\<open>Infinity - Infinity\<close> are \<^verbatim>\<open>NaN\<close>, \<^verbatim>\<open>NaN\<close>
  is absorbing and every comparison with \<^verbatim>\<open>NaN\<close> is false.
\<close>

datatype jsnum = Fin real | PInf | NInf | NaN

instantiation jsnum :: "{plus, minus, uminus, times, inverse, abs, ord}"
begin

fun uminus_jsnum :: "jsnum \<Rightarrow> jsnum" where
  "uminus_jsnum (Fin a) = Fin (- a)"
| "uminus_jsnum PInf = NInf"
| "uminus_jsnum NInf = PInf"
| "uminus_jsnum NaN = NaN"

fun plus_jsnum :: "jsnum \<Rightarrow> jsnum \<Rightarrow> jsnum" where
  "plus_jsnum NaN _ = NaN"
| "plus_jsnum _ NaN = NaN"
| "plus_jsnum (Fin a) (Fin b) = Fin (a + b)"
| "plus_jsnum PInf NInf = NaN"
| "plus_jsnum NInf PInf = NaN"
| "plus_jsnum PInf _ = PInf"
| "plus_jsnum _ PInf = PInf"
| "plus_jsnum NInf _ = NInf"
| "plus_jsnum _ NInf = NInf"

definition minus_jsnum :: "jsnum \<Rightarrow> jsnum \<Rightarrow> jsnum" where
  "minus_jsnum u v = u + (- v)"

text \<open>The sign of an infinite product or quotient: \<open>True\<close> for positive.\<close>

definition signed_inf :: "bool \<Rightarrow> jsnum" where
  "signed_inf pos = (if pos then PInf else NInf)"

fun times_jsnum :: "jsnum \<Rightarrow> jsnum \<Rightarrow> jsnum" where
  "times_jsnum NaN _ = NaN"
| "times_jsnum _ NaN = NaN"
| "times_jsnum (Fin a) (Fin b) = Fin (a * b)"
| "times_jsnum (Fin a) PInf = (if a = 0 then NaN else signed_inf (0 < a))"
| "times_jsnum (Fin a) NInf = (if a = 0 then NaN else signed_inf (a < 0))"
| "times_jsnum PInf (Fin b) = (if b = 0 then NaN else signed_inf (0 < b))"
| "times_jsnum NInf (Fin b) = (if b = 0 then NaN else signed_inf (b < 0))"
| "times_jsnum PInf PInf = PInf"
| "times_jsnum NInf NInf = PInf"
| "times_jsnum PInf NInf = NInf"
| "times_jsnum NInf PInf = NInf"

fun divide_jsnum :: "jsnum \<Rightarrow> jsnum \<Rightarrow> jsnum" where
  "divide_jsnum NaN _ = NaN"
| "divide_jsnum _ NaN = NaN"
| "divide_jsnum (Fin a) (Fin b) =
     (if b \<noteq> 0 then Fin (a / b) else if a = 0 then NaN else signed_inf (0 < a))"
| "divide_jsnum (Fin a) PInf = Fin 0"
| "divide_jsnum (Fin a) NInf = Fin 0"
| "divide_jsnum PInf (Fin b) = signed_inf (0 \<le> b)"
| "divide_jsnum NInf (Fin b) = signed_inf (b < 0)"
| "divide_jsnum PInf _ = NaN"
| "divide_jsnum NInf _ = NaN"

definition inverse_jsnum :: "jsnum \<Rightarrow> jsnum" where
  "inverse_jsnum u = divide (Fin 1) u"

fun abs_jsnum :: "jsnum \<Rightarrow> jsnum" where
  "abs_jsnum (Fin a) = Fin \<bar>a\<bar>"
| "abs_jsnum PInf = PInf"
| "abs_jsnum NInf = PInf"
| "abs_jsnum NaN = NaN"

fun less_jsnum :: "jsnum \<Rightarrow> jsnum \<Rightarrow> bool" where
  "less_jsnum NaN _ = False"
| "less_jsnum _ NaN = False"
| "less_jsnum (Fin a) (Fin b) = (a < b)"
| "less_jsnum (Fin a) PInf = True"
| "less_jsnum NInf (Fin b) = True"
| "less_jsnum NInf PInf = True"
| "less_jsnum _ _ = False"

fun less_eq_jsnum :: "jsnum \<Rightarrow> jsnum \<Rightarrow> bool" where
  "less_eq_jsnum NaN _ = False"
| "less_eq_jsnum _ NaN = False"
| "less_eq_jsnum (Fin a) (Fin b) = (a \<le> b)"
| "less_eq_jsnum NInf _ = True"
| "less_eq_jsnum _ PInf = True"
| "less_eq_jsnum _ _ = False"

instance ..

end

text \<open>The functions of \<^verbatim>\<open>Math\<close> that the program calls.\<close>

fun Math_sin :: "jsnum \<Rightarrow> jsnum" where
  "Math_sin (Fin a) = Fin (sin a)"
| "Math_sin _ = NaN"

fun Math_cos :: "jsnum \<Rightarrow> jsnum" where
  "Math_cos (Fin a) = Fin (cos a)"
| "Math_cos _ = NaN"

text \<open>
  The tangent has poles, which no double hits: at the doubles next to one the result
  of \<^verbatim>\<open>Math.tan\<close> is finite and of the order of 1e16, with either sign. The exact
  model takes \<^verbatim>\<open>Infinity\<close> at a pole; the arc tangent that the program applies
  next maps both signs to a quarter turn.
\<close>

fun Math_tan :: "jsnum \<Rightarrow> jsnum" where
  "Math_tan (Fin a) = (if cos a = 0 then PInf else Fin (tan a))"
| "Math_tan _ = NaN"

fun Math_atan :: "jsnum \<Rightarrow> jsnum" where
  "Math_atan (Fin a) = Fin (arctan a)"
| "Math_atan PInf = Fin (pi / 2)"
| "Math_atan NInf = Fin (- (pi / 2))"
| "Math_atan NaN = NaN"

fun Math_sqrt :: "jsnum \<Rightarrow> jsnum" where
  "Math_sqrt (Fin a) = (if 0 \<le> a then Fin (sqrt a) else NaN)"
| "Math_sqrt PInf = PInf"
| "Math_sqrt _ = NaN"

fun Math_min :: "jsnum \<Rightarrow> jsnum \<Rightarrow> jsnum" where
  "Math_min NaN _ = NaN"
| "Math_min _ NaN = NaN"
| "Math_min u v = (if u < v then u else v)"

text \<open>
  The remainder operator \<^verbatim>\<open>%\<close>: the quotient is truncated towards zero, so the
  result has the sign of the dividend.
\<close>

definition trunc :: "real \<Rightarrow> int" where
  "trunc r = (if 0 \<le> r then \<lfloor>r\<rfloor> else \<lceil>r\<rceil>)"

fun js_rem :: "jsnum \<Rightarrow> jsnum \<Rightarrow> jsnum" where
  "js_rem (Fin a) (Fin b) = (if b = 0 then NaN else Fin (a - b * of_int (trunc (a / b))))"
| "js_rem (Fin a) PInf = Fin a"
| "js_rem (Fin a) NInf = Fin a"
| "js_rem _ _ = NaN"

section \<open>Orbital calculations\<close>

text \<open>
  \<^verbatim>\<open>PlanetData\<close>: the fields \<^verbatim>\<open>a, e, i, om, w, M0, T\<close> of the interface, with a
  prefix because a record field is a constant and one-letter names would capture
  the variables of every later statement.
\<close>

record PlanetData =
  pd_a :: jsnum
  pd_e :: jsnum
  pd_i :: jsnum
  pd_om :: jsnum
  pd_w :: jsnum
  pd_M0 :: jsnum
  pd_T :: jsnum

text \<open>A position \<^verbatim>\<open>{x, y, z}\<close>.\<close>

record Position3 =
  px :: jsnum
  py :: jsnum
  pz :: jsnum

definition origin :: Position3 where
  "origin = \<lparr>px = Fin 0, py = Fin 0, pz = Fin 0\<rparr>"

definition orbitCorrectionMap :: "(string \<times> jsnum) list" where
  "orbitCorrectionMap =
     [(''sun'', Fin 1), (''mercury'', Fin 1), (''venus'', Fin 1), (''earth'', Fin 1),
      (''mars'', Fin 1), (''jupiter'', Fin 1.7), (''saturn'', Fin 3.2),
      (''uranus'', Fin 4.0), (''neptune'', Fin 5)]"

text \<open>\<^verbatim>\<open>THREE.MathUtils.degToRad\<close> multiplies by \<^verbatim>\<open>Math.PI / 180\<close>.\<close>

definition degToRad :: "jsnum \<Rightarrow> jsnum" where
  "degToRad degrees = degrees * Fin (pi / 180)"

definition tolerance :: jsnum where
  "tolerance = Fin (1 / 1000000)"

definition maxIterations :: nat where
  "maxIterations = 10"

text \<open>
  The \<^verbatim>\<open>while\<close> loop of \<^verbatim>\<open>calculateCelestialPosition\<close> on its three variables
  \<^verbatim>\<open>E\<close>, \<^verbatim>\<open>prevE\<close> and \<^verbatim>\<open>iterations\<close>; \<open>ecc\<close> is \<^verbatim>\<open>data.e\<close>.
\<close>

function keplerLoop :: "jsnum \<Rightarrow> jsnum \<Rightarrow> jsnum \<times> jsnum \<times> nat \<Rightarrow> jsnum \<times> jsnum \<times> nat" where
  "keplerLoop M ecc (E, prevE, iterations) =
     (if tolerance < \<bar>E - prevE\<bar> \<and> iterations < maxIterations
      then keplerLoop M ecc (M + ecc * Math_sin E, E, Suc iterations)
      else (E, prevE, iterations))"
  by pat_completeness auto
termination
  by (relation "measure (\<lambda>(M, ecc, E, prevE, iterations). maxIterations - iterations)") auto

declare keplerLoop.simps [simp del]

text \<open>The loop with its initialisation: \<^verbatim>\<open>E = M\<close>, \<^verbatim>\<open>prevE = E - 1\<close>, \<^verbatim>\<open>iterations = 0\<close>.\<close>

definition solveKepler :: "jsnum \<Rightarrow> jsnum \<Rightarrow> jsnum \<times> jsnum \<times> nat" where
  "solveKepler M ecc = keplerLoop M ecc (M, M - Fin 1, 0)"

definition calculateCelestialPosition :: "PlanetData \<Rightarrow> jsnum \<Rightarrow> Position3" where
  "calculateCelestialPosition data elapsedDays =
     (let n = (Fin 2 * Fin pi) / pd_T data;
          M = degToRad (pd_M0 data) + n * elapsedDays;
          E = fst (solveKepler M (pd_e data));
          f = Fin 2 * Math_atan (Math_sqrt ((Fin 1 + pd_e data) / (Fin 1 - pd_e data))
                                 * Math_tan (E / Fin 2));
          r = pd_a data * (Fin 1 - pd_e data * Math_cos E);
          cosOM = Math_cos (degToRad (pd_om data));
          sinOM = Math_sin (degToRad (pd_om data));
          cosW = Math_cos (degToRad (pd_w data));
          sinW = Math_sin (degToRad (pd_w data));
          cosI = Math_cos (degToRad (pd_i data));
          sinI = Math_sin (degToRad (pd_i data));
          x_prime = r * (cosW * Math_cos f - sinW * Math_sin f);
          y_prime = r * (sinW * Math_cos f + cosW * Math_sin f);
          z_prime = r * Math_sin f * sinI
      in \<lparr>px = x_prime * cosOM - y_prime * sinOM,
          py = x_prime * sinOM + y_prime * cosOM,
          pz = z_prime * cosI\<rparr>)"

definition ORBIT_VISUALIZATION_SCALE :: jsnum where
  "ORBIT_VISUALIZATION_SCALE = Fin (9 / 100000000)"

text \<open>
  The names that every plain object inherits from \<^verbatim>\<open>Object.prototype\<close>: a lookup
  \<^verbatim>\<open>obj[name]\<close> with one of them finds a function (or, for \<^verbatim>\<open>__proto__\<close>, the
  prototype itself) even when the object has no such key of its own.
\<close>

definition inheritedKeys :: "string list" where
  "inheritedKeys =
     [''constructor'', ''__proto__'', ''toString'', ''valueOf'', ''hasOwnProperty'',
      ''isPrototypeOf'', ''propertyIsEnumerable'', ''toLocaleString'', ''__defineGetter__'',
      ''__defineSetter__'', ''__lookupGetter__'', ''__lookupSetter__'']"

text \<open>\<^verbatim>\<open>String.prototype.toLowerCase\<close> on ASCII letters.\<close>

definition toLowerCase :: "string \<Rightarrow> string" where
  "toLowerCase s =
     map (\<lambda>c. let k = (of_char c :: nat) in if 65 \<le> k \<and> k \<le> 90 then char_of (k + 32) else c) s"

text \<open>
  In the third branch \<^verbatim>\<open>orbitCorrectionMap[correctionKey] || 1\<close> is the factor of
  the table, 1 for a key that is not there, and for an inherited key an object, which
  is truthy and divides to \<^verbatim>\<open>NaN\<close>.
\<close>

definition transformToGeocentricVisualization ::
  "string \<Rightarrow> Position3 \<Rightarrow> Position3 \<Rightarrow> Position3" where
  "transformToGeocentricVisualization bodyName position earthPosition =
     (if bodyName = ''Earth'' then \<lparr>px = Fin 0, py = Fin 0, pz = Fin 0\<rparr>
      else if bodyName = ''Sun'' then
        (let geoX = - px earthPosition * ORBIT_VISUALIZATION_SCALE;
             geoY = - py earthPosition * ORBIT_VISUALIZATION_SCALE;
             geoZ = - pz earthPosition * ORBIT_VISUALIZATION_SCALE
         in \<lparr>px = geoX, py = Fin 0, pz = geoY\<rparr>)
      else
        (let correctionKey = toLowerCase bodyName;
             correctionFactor =
               (if correctionKey \<in> set inheritedKeys then NaN
                else (case map_of orbitCorrectionMap correctionKey of
                        Some c \<Rightarrow> c | None \<Rightarrow> Fin 1));
             geoX = (px position - px earthPosition) * ORBIT_VISUALIZATION_SCALE / correctionFactor;
             geoY = (py position - py earthPosition) * ORBIT_VISUALIZATION_SCALE / correctionFactor;
             geoZ = (pz position - pz earthPosition) * ORBIT_VISUALIZATION_SCALE / correctionFactor
         in \<lparr>px = geoX, py = geoZ, pz = geoY\<rparr>))"

text \<open>The local function \<^verbatim>\<open>interpolateAngle\<close> of \<^verbatim>\<open>interpolateOrbitalElements\<close>.\<close>

definition interpolateAngle :: "jsnum \<Rightarrow> jsnum \<Rightarrow> jsnum \<Rightarrow> jsnum" where
  "interpolateAngle a1 a2 t =
     (let diff = js_rem (a2 - a1) (Fin 360);
          diff = (if Fin 180 < diff then diff - Fin 360 else diff);
          diff = (if diff < - Fin 180 then diff + Fin 360 else diff)
      in js_rem (a1 + diff * t) (Fin 360))"

definition interpolateOrbitalElements :: "PlanetData \<Rightarrow> PlanetData \<Rightarrow> jsnum \<Rightarrow> PlanetData" where
  "interpolateOrbitalElements startData endData progress =
     \<lparr>pd_a = pd_a startData + progress * (pd_a endData - pd_a startData),
      pd_e = pd_e startData + progress * (pd_e endData - pd_e startData),
      pd_i = interpolateAngle (pd_i startData) (pd_i endData) progress,
      pd_om = interpolateAngle (pd_om startData) (pd_om endData) progress,
      pd_w = interpolateAngle (pd_w startData) (pd_w endData) progress,
      pd_M0 = interpolateAngle (pd_M0 startData) (pd_M0 endData) progress,
      pd_T = pd_T startData + progress * (pd_T endData - pd_T startData)\<rparr>"

section \<open>Dates\<close>

text \<open>
  A \<^verbatim>\<open>Date\<close> holds a time value: a whole number of milliseconds since the epoch,
  or \<^verbatim>\<open>NaN\<close> for an Invalid Date (\<open>None\<close>). The bound of 8.64e15 ms on time
  values is not modelled.
\<close>

type_synonym Date = "int option"

definition msPerDay :: int where
  "msPerDay = 86400000"

text \<open>
  The local time zone of the device: the offset of local time from UTC in
  milliseconds, with at most one change, at the instant \<open>switch\<close> (a zone with
  daylight saving around one of its changes; the two offsets differ by less than a
  day). UTC and every fixed zone have two equal offsets.
\<close>

datatype TimeZone = TimeZone (offsetBefore: int) (switch: int) (offsetAfter: int)

definition utc :: TimeZone where
  "utc = TimeZone 0 0 0"

definition localOffset :: "TimeZone \<Rightarrow> int \<Rightarrow> int" where
  "localOffset zone t = (if t < switch zone then offsetBefore zone else offsetAfter zone)"

text \<open>
  The day that the local getters \<^verbatim>\<open>getFullYear\<close>, \<^verbatim>\<open>getMonth\<close> and
  \<^verbatim>\<open>getDate\<close> read, as the number of the calendar day.
\<close>

definition localDay :: "TimeZone \<Rightarrow> int \<Rightarrow> int" where
  "localDay zone t = (t + localOffset zone t) div msPerDay"

text \<open>
  \<^verbatim>\<open>d.setDate(d.getDate() + 1)\<close> on a valid time value: the same local clock
  time on the next local day. Away from the change of the offset that is one day
  later; across it the instant moves by the difference of the offsets, and a local
  time that the change skips is read with the offset before it.
\<close>

definition addLocalDay :: "TimeZone \<Rightarrow> int \<Rightarrow> int" where
  "addLocalDay zone t =
     (if t + msPerDay < switch zone \<or> switch zone \<le> t then t + msPerDay
      else (let late = t + msPerDay + offsetBefore zone - offsetAfter zone
            in if switch zone \<le> late then late else t + msPerDay))"

text \<open>
  A date string is either the \<^verbatim>\<open>YYYY-MM-DD\<close> string of a calendar day, given by
  the number of that day since 1970-01-01, or a string that \<^verbatim>\<open>new Date\<close> does not
  parse. Strings that parse but are not in this canonical form are outside the model.
\<close>

datatype dateString = ISODate int | Malformed string

text \<open>\<^verbatim>\<open>new Date(string)\<close>, \<^verbatim>\<open>new Date(number)\<close> and \<^verbatim>\<open>getTime()\<close>.\<close>

fun newDate :: "dateString \<Rightarrow> Date" where
  "newDate (ISODate day) = Some (day * msPerDay)"
| "newDate (Malformed s) = None"

fun newDateOfNumber :: "jsnum \<Rightarrow> Date" where
  "newDateOfNumber (Fin r) = Some (trunc r)"
| "newDateOfNumber _ = None"

fun getTime :: "Date \<Rightarrow> jsnum" where
  "getTime (Some t) = Fin (of_int t)"
| "getTime None = NaN"

text \<open>\<^verbatim>\<open>toISOString().split('T')[0]\<close> of a valid time value.\<close>

definition toISODate :: "int \<Rightarrow> dateString" where
  "toISODate t = ISODate (t div msPerDay)"

section \<open>The planet data service\<close>

datatype error = InvalidDateError | RangeError | TypeError | StorageError | NetworkError

definition PLANET_IDS :: "(string \<times> string) list" where
  "PLANET_IDS =
     [(''10'', ''Sun''), (''199'', ''Mercury''), (''299'', ''Venus''), (''399'', ''Earth''),
      (''499'', ''Mars''), (''599'', ''Jupiter''), (''699'', ''Saturn''), (''799'', ''Uranus''),
      (''899'', ''Neptune'')]"

text \<open>
  \<^verbatim>\<open>PlanetDataByDate\<close>: an object from date strings to arrays with \<^verbatim>\<open>null\<close>
  slots, as an association list in the insertion order of the keys.
\<close>

type_synonym PlanetDataByDate = "(dateString \<times> PlanetData option list) list"

record DataRange =
  range_start :: dateString
  range_end :: dateString

record PlanetDataMeta =
  lastCleanup :: dateString
  dataRange :: "DataRange option"

text \<open>
  The two items of \<^verbatim>\<open>AsyncStorage\<close> that the service uses (absent: \<open>None\<close>); when
  \<open>rejecting\<close> is set every call of the store fails.
\<close>

record AsyncStorage =
  planet_data_v2 :: "PlanetDataByDate option"
  planet_data_meta_v2 :: "PlanetDataMeta option"
  rejecting :: bool

definition getAllStoredData :: "AsyncStorage \<Rightarrow> PlanetDataByDate option" where
  "getAllStoredData st = (if rejecting st then None else planet_data_v2 st)"

definition saveAllData :: "AsyncStorage \<Rightarrow> PlanetDataByDate \<Rightarrow> error + AsyncStorage" where
  "saveAllData st data =
     (if rejecting st then Inl StorageError else Inr (st\<lparr>planet_data_v2 := Some data\<rparr>))"

definition getMetaData :: "AsyncStorage \<Rightarrow> PlanetDataMeta option" where
  "getMetaData st = (if rejecting st then None else planet_data_meta_v2 st)"

definition setMetaData :: "AsyncStorage \<Rightarrow> PlanetDataMeta \<Rightarrow> error + AsyncStorage" where
  "setMetaData st meta =
     (if rejecting st then Inl StorageError else Inr (st\<lparr>planet_data_meta_v2 := Some meta\<rparr>))"

text \<open>
  The \<^verbatim>\<open>while\<close> loop of \<^verbatim>\<open>getDatesBetween\<close> on the time value of
  \<^verbatim>\<open>currentDate\<close>: the date that is pushed is the UTC date of \<^verbatim>\<open>toISOString\<close>,
  the step is the one of \<^verbatim>\<open>setDate\<close> in local time.
\<close>

function datesLoop :: "TimeZone \<Rightarrow> int \<Rightarrow> int \<Rightarrow> dateString list \<Rightarrow> dateString list" where
  "datesLoop zone currentDate endDate result =
     (if currentDate \<le> endDate
      then datesLoop zone (addLocalDay zone currentDate) endDate (result @ [toISODate currentDate])
      else result)"
  by pat_completeness auto
termination
  by (relation "measure (\<lambda>(zone, currentDate, endDate, result). nat (endDate - currentDate + 1))")
     (auto simp: addLocalDay_def Let_def msPerDay_def)

declare datesLoop.simps [simp del]

definition getDatesBetween :: "TimeZone \<Rightarrow> dateString \<Rightarrow> dateString \<Rightarrow> dateString list" where
  "getDatesBetween zone startDateStr endDateStr =
     (case (newDate startDateStr, newDate endDateStr) of
        (Some startDate, Some endDate) \<Rightarrow> datesLoop zone startDate endDate []
      | _ \<Rightarrow> [])"

text \<open>
  \<^verbatim>\<open>fetchPlanetData\<close> of the API module. The request to the ephemeris provider and
  the parsing of its answer are the parameter \<open>provider\<close>, from the body id and the
  two days of the formatted request to the parsed rows or a failure. The function
  returns its result, or the error it throws, and the requests it has sent.
  \<^verbatim>\<open>formatDateForHorizons\<close> writes the local day of a date and throws on an
  Invalid Date.
\<close>

type_synonym Provider = "string \<Rightarrow> int \<Rightarrow> int \<Rightarrow> error + (dateString \<times> PlanetData) list"

type_synonym Request = "string \<times> int \<times> int"

definition formatDateForHorizons :: "TimeZone \<Rightarrow> Date \<Rightarrow> error + int" where
  "formatDateForHorizons zone d =
     (case d of None \<Rightarrow> Inl InvalidDateError | Some t \<Rightarrow> Inr (localDay zone t))"

definition fetchPlanetData ::
  "TimeZone \<Rightarrow> Provider \<Rightarrow> string \<Rightarrow> dateString \<Rightarrow> dateString
     \<Rightarrow> (error + (dateString \<times> PlanetData) list) \<times> Request list" where
  "fetchPlanetData zone provider planetId startDate endDate =
     (case formatDateForHorizons zone (newDate startDate) of
        Inl err \<Rightarrow> (Inl err, [])
      | Inr formattedStartDate \<Rightarrow>
          (case formatDateForHorizons zone (newDate endDate) of
             Inl err \<Rightarrow> (Inl err, [])
           | Inr formattedEndDate \<Rightarrow>
               (let swap = getTime (newDate endDate) < getTime (newDate startDate);
                    reqStart = (if swap then formattedEndDate else formattedStartDate);
                    reqEnd = (if swap then formattedStartDate else formattedEndDate)
                in (Inr (case provider planetId reqStart reqEnd of
                           Inl err \<Rightarrow> []
                         | Inr results \<Rightarrow> results),
                    [(planetId, reqStart, reqEnd)]))))"

text \<open>\<^verbatim>\<open>Array.prototype.findIndex\<close>: the first index that satisfies the test, or -1.\<close>

fun findIndex :: "('a \<Rightarrow> bool) \<Rightarrow> 'a list \<Rightarrow> int" where
  "findIndex P [] = - 1"
| "findIndex P (v # vs) =
     (if P v then 0 else (let k = findIndex P vs in if k = - 1 then - 1 else k + 1))"

text \<open>
  An assignment \<^verbatim>\<open>arr[k] = v\<close>: beyond the end the array grows, and the slots in
  between read as \<^verbatim>\<open>null\<close> once the table has been through JSON.
\<close>

definition setIndex :: "'a option list \<Rightarrow> nat \<Rightarrow> 'a \<Rightarrow> 'a option list" where
  "setIndex arr k v =
     (if k < length arr then arr[k := Some v]
      else arr @ replicate (k - length arr) None @ [Some v])"

text \<open>
  The body of the two inner loops of \<^verbatim>\<open>fetchAndStoreDataForRange\<close>: create the array
  of the date if there is none, then store the data at the index of the planet
  (nothing is stored when \<^verbatim>\<open>findIndex\<close> answers -1).
\<close>

definition storeForDate ::
  "string \<Rightarrow> PlanetDataByDate \<Rightarrow> dateString \<times> PlanetData \<Rightarrow> PlanetDataByDate" where
  "storeForDate planetId existingData entry =
     (let date = fst entry;
          arr = (case map_of existingData date of
                   None \<Rightarrow> replicate (length PLANET_IDS) None
                 | Some stored \<Rightarrow> stored);
          existingData' = (case map_of existingData date of
                             None \<Rightarrow> AList.update date arr existingData
                           | Some stored \<Rightarrow> existingData);
          planetIndex = findIndex (\<lambda>p. fst p = planetId) PLANET_IDS
      in if planetIndex \<noteq> - 1
         then AList.update date (setIndex arr (nat planetIndex) (snd entry)) existingData'
         else existingData')"

definition sunZeroData :: PlanetData where
  "sunZeroData = \<lparr>pd_a = Fin 0, pd_e = Fin 0, pd_i = Fin 0, pd_om = Fin 0, pd_w = Fin 0,
                  pd_M0 = Fin 0, pd_T = Fin 0\<rparr>"

text \<open>One round of the loop over \<^verbatim>\<open>PLANET_IDS\<close>, on the table and the requests sent.\<close>

definition fetchPlanet ::
  "TimeZone \<Rightarrow> Provider \<Rightarrow> dateString \<Rightarrow> dateString \<Rightarrow> dateString list \<Rightarrow> string \<times> string
     \<Rightarrow> PlanetDataByDate \<times> Request list \<Rightarrow> PlanetDataByDate \<times> Request list" where
  "fetchPlanet zone provider startDateStr endDateStr dateList planet acc =
     (let existingData = fst acc; sent = snd acc in
      if fst planet = ''10''
      then (foldl (storeForDate ''10'') existingData (map (\<lambda>date. (date, sunZeroData)) dateList), sent)
      else
        (case fetchPlanetData zone provider (fst planet) startDateStr endDateStr of
           (Inl err, reqs) \<Rightarrow> (existingData, sent @ reqs)
         | (Inr planetDataForRange, reqs) \<Rightarrow>
             (if length planetDataForRange = 0 then (existingData, sent @ reqs)
              else (foldl (storeForDate (fst planet)) existingData planetDataForRange, sent @ reqs))))"

definition updateMeta :: "PlanetDataMeta option \<Rightarrow> dateString \<Rightarrow> dateString \<Rightarrow> PlanetDataMeta" where
  "updateMeta stored startDateStr endDateStr =
     (let meta = (case stored of
                    Some m \<Rightarrow> m
                  | None \<Rightarrow> \<lparr>lastCleanup = startDateStr,
                            dataRange = Some \<lparr>range_start = startDateStr, range_end = startDateStr\<rparr>\<rparr>)
      in case dataRange meta of
           None \<Rightarrow> meta\<lparr>dataRange := Some \<lparr>range_start = startDateStr, range_end = endDateStr\<rparr>\<rparr>
         | Some r \<Rightarrow>
             (let startDate = getTime (newDate startDateStr);
                  endDate = getTime (newDate endDateStr);
                  metaStartDate = getTime (newDate (range_start r));
                  metaEndDate = getTime (newDate (range_end r));
                  r1 = (if startDate < metaStartDate then r\<lparr>range_start := startDateStr\<rparr> else r);
                  r2 = (if metaEndDate < endDate then r1\<lparr>range_end := endDateStr\<rparr> else r1)
              in meta\<lparr>dataRange := Some r2\<rparr>))"

text \<open>
  \<^verbatim>\<open>fetchAndStoreDataForRange\<close>: the new store, or the error the call rejects with,
  and the requests sent to the provider. The completeness check only logs.
\<close>

definition fetchAndStoreDataForRange ::
  "TimeZone \<Rightarrow> Provider \<Rightarrow> AsyncStorage \<Rightarrow> dateString \<Rightarrow> dateString
     \<Rightarrow> (error + AsyncStorage) \<times> Request list" where
  "fetchAndStoreDataForRange zone provider st startDateStr endDateStr =
     (let existingData = (case getAllStoredData st of Some d \<Rightarrow> d | None \<Rightarrow> []);
          dateList = getDatesBetween zone startDateStr endDateStr;
          fetched = foldl (\<lambda>acc planet. fetchPlanet zone provider startDateStr endDateStr dateList planet acc)
                          (existingData, []) PLANET_IDS
      in case saveAllData st (fst fetched) of
           Inl err \<Rightarrow> (Inl err, snd fetched)
         | Inr st1 \<Rightarrow>
             (case setMetaData st1 (updateMeta (getMetaData st1) startDateStr endDateStr) of
                Inl err \<Rightarrow> (Inl err, snd fetched)
              | Inr st2 \<Rightarrow> (Inr st2, snd fetched)))"

text \<open>
  The first of the sorted keys that remain after a cleanup. Every such key parses, so
  it is an \<open>ISODate\<close>, and the string order of these is the order of the days (for
  years of four digits).
\<close>

fun dayNumber :: "dateString \<Rightarrow> int" where
  "dayNumber (ISODate day) = day"
| "dayNumber (Malformed s) = 0"

definition sortDates :: "dateString list \<Rightarrow> dateString list" where
  "sortDates ks = sort_key dayNumber ks"

text \<open>\<^verbatim>\<open>removeDataBeforeDate\<close>: its errors are caught and logged, never thrown.\<close>

definition removeDataBeforeDate :: "AsyncStorage \<Rightarrow> dateString \<Rightarrow> AsyncStorage" where
  "removeDataBeforeDate st cutoffDateStr =
     (case getAllStoredData st of
        None \<Rightarrow> st
      | Some allData \<Rightarrow>
          (let cutoff = newDate cutoffDateStr;
               filteredData = filter (\<lambda>kv. getTime cutoff \<le> getTime (newDate (fst kv))) allData
           in case saveAllData st filteredData of
                Inl err \<Rightarrow> st
              | Inr st1 \<Rightarrow>
                  (case getMetaData st1 of
                     None \<Rightarrow> st1
                   | Some meta \<Rightarrow>
                       (case dataRange meta of
                          None \<Rightarrow> st1
                        | Some r \<Rightarrow>
                            (let remainingDates = sortDates (map fst filteredData);
                                 r' = (if 0 < length remainingDates
                                       then r\<lparr>range_start := hd remainingDates\<rparr>
                                       else r\<lparr>range_start := cutoffDateStr\<rparr>)
                             in case setMetaData st1 (meta\<lparr>dataRange := Some r'\<rparr>) of
                                  Inl err \<Rightarrow> st1
                                | Inr st2 \<Rightarrow> st2)))))"

text \<open>
  \<^verbatim>\<open>checkDataAvailability\<close>. Its date loop is the one of \<^verbatim>\<open>getDatesBetween\<close>
  without the test for invalid dates, whose comparisons are false all the same.
\<close>

definition checkDataAvailability ::
  "TimeZone \<Rightarrow> AsyncStorage \<Rightarrow> dateString \<Rightarrow> dateString \<Rightarrow> bool" where
  "checkDataAvailability zone st startDate endDate =
     (case getAllStoredData st of
        None \<Rightarrow> False
      | Some allData \<Rightarrow>
          (let dateList = (case (newDate startDate, newDate endDate) of
                             (Some start, Some end') \<Rightarrow> datesLoop zone start end' []
                           | _ \<Rightarrow> [])
           in list_all (\<lambda>date. case map_of allData date of
                                  None \<Rightarrow> False
                                | Some arr \<Rightarrow> length arr = 9 \<and> \<not> list_ex (\<lambda>data. data = None) arr)
                dateList))"

section \<open>The animation handler\<close>

record CelestialBodyConfig =
  body_name :: string
  body_color :: string
  body_size :: jsnum

type_synonym PlanetPositions = "(string \<times> Position3) list"

text \<open>
  An entry of \<^verbatim>\<open>cachedPositionsRef\<close>. A new entry holds one object as both
  \<^verbatim>\<open>target\<close> and \<^verbatim>\<open>current\<close>; every frame reads \<^verbatim>\<open>target\<close> before it writes
  \<^verbatim>\<open>current\<close> and replaces \<^verbatim>\<open>target\<close> at the start of the next frame, so the
  entry is modelled by its three values.
\<close>

record CachedPosition =
  target :: Position3
  current :: Position3
  velocity :: Position3

text \<open>The calls of the callbacks that the parent passes in.\<close>

datatype Callback =
  DateChange Date | TextureChange | PositionUpdate string Position3 | FramesRendered nat

text \<open>
  The properties of the component: the two dates are \<^verbatim>\<open>new Date(startDate)\<close> and
  \<^verbatim>\<open>new Date(endDate)\<close>, the three optional callbacks are given or not.
\<close>

record AnimationProps =
  startDate :: Date
  endDate :: Date
  animationDuration :: jsnum
  planetDataByDate :: PlanetDataByDate
  celestialBodies :: "CelestialBodyConfig list"
  readyToAnimate :: bool
  onTextureChange :: bool
  onPositionUpdate :: bool
  onFramesRendered :: bool

text \<open>
  The state of the component and its refs, with \<^verbatim>\<open>isAnimationActive\<close>, which the
  parent owns and the handler changes through \<^verbatim>\<open>setIsAnimationActive\<close>. A state
  setter takes effect at once. The texture state of the Earth plays no part in the
  frame handler and is left out.
\<close>

record AnimationState =
  currentDate :: Date
  allPlanetPositions :: PlanetPositions
  isAnimationComplete :: bool
  isAnimationActive :: bool
  currentDateRef :: Date
  lastDateUpdateRef :: jsnum
  frameCountRef :: nat
  hasStartedRef :: bool
  accumulatedMsRef :: jsnum
  cachedPositionsRef :: "(string \<times> CachedPosition) list"

definition initialState :: "AnimationProps \<Rightarrow> bool \<Rightarrow> AnimationState" where
  "initialState props active =
     \<lparr>currentDate = startDate props, allPlanetPositions = [], isAnimationComplete = False,
      isAnimationActive = active, currentDateRef = startDate props, lastDateUpdateRef = Fin 0,
      frameCountRef = 0, hasStartedRef = False, accumulatedMsRef = Fin 0,
      cachedPositionsRef = []\<rparr>"

text \<open>
  The body of the component, run at every render: while there are no positions, the
  animation is not complete and the resources are ready, the Earth is put at the
  centre.
\<close>

definition renderHandler :: "AnimationProps \<Rightarrow> AnimationState \<Rightarrow> AnimationState" where
  "renderHandler props st =
     (let hasPositions = 0 < length (allPlanetPositions st)
      in if \<not> hasPositions \<and> \<not> isAnimationComplete st \<and> readyToAnimate props
         then st\<lparr>allPlanetPositions := [(''Earth'', origin)]\<rparr>
         else st)"

text \<open>
  \<^verbatim>\<open>planetDataByDate[dateStr][planetIndex]\<close> where both lookups are tested for
  truthiness: a missing date, an index outside the array (-1 when the body is not
  found) and a \<^verbatim>\<open>null\<close> slot all count as no data.
\<close>

definition elementsFor :: "PlanetDataByDate \<Rightarrow> dateString \<Rightarrow> int \<Rightarrow> PlanetData option" where
  "elementsFor table dateStr planetIndex =
     (case map_of table dateStr of
        None \<Rightarrow> None
      | Some arr \<Rightarrow>
          (if 0 \<le> planetIndex \<and> nat planetIndex < length arr then arr ! nat planetIndex else None))"

text \<open>
  \<^verbatim>\<open>calculateInterpolatedPosition\<close>: \<^verbatim>\<open>toISOString\<close> throws a \<^verbatim>\<open>RangeError\<close> on an
  Invalid Date; \<open>Inr None\<close> is the result \<^verbatim>\<open>null\<close>. The next date is set with
  \<^verbatim>\<open>setDate\<close>, in local time.
\<close>

definition calculateInterpolatedPosition ::
  "TimeZone \<Rightarrow> PlanetDataByDate \<Rightarrow> int \<Rightarrow> Date \<Rightarrow> error + Position3 option" where
  "calculateInterpolatedPosition zone table planetIndex exactDate =
     (case exactDate of
        None \<Rightarrow> Inl RangeError
      | Some t \<Rightarrow>
          (let currentDateStr = toISODate t;
               nextDate = addLocalDay zone t;
               nextDateStr = toISODate nextDate
           in case elementsFor table currentDateStr planetIndex of
                None \<Rightarrow> Inr None
              | Some currentDayData \<Rightarrow>
                  (let currentPos = calculateCelestialPosition currentDayData (Fin 0)
                   in case elementsFor table nextDateStr planetIndex of
                        None \<Rightarrow> Inr (Some currentPos)
                      | Some nextDayData \<Rightarrow>
                          (if nextDateStr = currentDateStr then Inr (Some currentPos)
                           else
                             (let nextPos = calculateCelestialPosition nextDayData (Fin 0);
                                  startOfDay = getTime (newDate currentDateStr);
                                  endOfDay = getTime (newDate nextDateStr);
                                  progress = (getTime exactDate - startOfDay) / (endOfDay - startOfDay)
                              in Inr (Some
                                   \<lparr>px = px currentPos + (px nextPos - px currentPos) * progress,
                                    py = py currentPos + (py nextPos - py currentPos) * progress,
                                    pz = pz currentPos + (pz nextPos - pz currentPos) * progress\<rparr>))))))"

definition transformPlanetPosition :: "string \<Rightarrow> Position3 \<Rightarrow> Position3 \<Rightarrow> Position3" where
  "transformPlanetPosition bodyName position earthPosition =
     transformToGeocentricVisualization bodyName position earthPosition"

text \<open>
  \<^verbatim>\<open>earthResult || {x: 0, y: 0, z: 0}\<close>: the position of the Earth that a frame
  uses as the reference.
\<close>

definition earthOriginalPositionAt ::
  "TimeZone \<Rightarrow> PlanetDataByDate \<Rightarrow> int \<Rightarrow> Date \<Rightarrow> error + Position3" where
  "earthOriginalPositionAt zone table earthIndex exactDate =
     (case calculateInterpolatedPosition zone table earthIndex exactDate of
        Inl err \<Rightarrow> Inl err
      | Inr earthResult \<Rightarrow> Inr (case earthResult of Some p \<Rightarrow> p | None \<Rightarrow> origin))"

text \<open>
  The first part of the \<^verbatim>\<open>forEach\<close> callback: the heliocentric position of the
  body, with the origin when there is none, and its transform \<^verbatim>\<open>newTargetPos\<close>.
\<close>

definition planetPositionOrDefault ::
  "TimeZone \<Rightarrow> PlanetDataByDate \<Rightarrow> Date \<Rightarrow> int \<Rightarrow> Position3 \<Rightarrow> int \<Rightarrow> error + Position3" where
  "planetPositionOrDefault zone table exactDate earthIndex earthOriginalPosition index =
     (if index = earthIndex then Inr earthOriginalPosition
      else (case calculateInterpolatedPosition zone table index exactDate of
              Inl err \<Rightarrow> Inl err
            | Inr planetResult \<Rightarrow> Inr (case planetResult of Some p \<Rightarrow> p | None \<Rightarrow> origin)))"

definition newTargetPosFor ::
  "TimeZone \<Rightarrow> PlanetDataByDate \<Rightarrow> Date \<Rightarrow> int \<Rightarrow> Position3 \<Rightarrow> int
     \<Rightarrow> CelestialBodyConfig \<Rightarrow> error + Position3" where
  "newTargetPosFor zone table exactDate earthIndex earthOriginalPosition index body =
     (case planetPositionOrDefault zone table exactDate earthIndex earthOriginalPosition index of
        Inl err \<Rightarrow> Inl err
      | Inr position \<Rightarrow> Inr (transformPlanetPosition (body_name body) position earthOriginalPosition))"

text \<open>The spring-damper update of one cache entry.\<close>

definition springStep :: "CelestialBodyConfig \<Rightarrow> jsnum \<Rightarrow> CachedPosition \<Rightarrow> CachedPosition" where
  "springStep body deltaTime cached =
     (let bodySize = body_size body;
          speedFactor = Math_min (Fin 0.8) (Fin 0.2 + bodySize * Fin 0.15);
          stiffness = Fin 2.8 + (if body_name body = ''Sun'' then Fin 1.0 else Fin 0);
          damping = Fin 0.8 - bodySize * Fin 0.02;
          springForceX = (px (target cached) - px (current cached)) * stiffness;
          springForceY = (py (target cached) - py (current cached)) * stiffness;
          springForceZ = (pz (target cached) - pz (current cached)) * stiffness;
          velocity' = \<lparr>px = px (velocity cached) * damping + springForceX * deltaTime * speedFactor,
                       py = py (velocity cached) * damping + springForceY * deltaTime * speedFactor,
                       pz = pz (velocity cached) * damping + springForceZ * deltaTime * speedFactor\<rparr>;
          current' = \<lparr>px = px (current cached) + px velocity',
                      py = py (current cached) + py velocity',
                      pz = pz (current cached) + pz velocity'\<rparr>
      in cached\<lparr>current := current', velocity := velocity'\<rparr>)"

text \<open>
  The \<^verbatim>\<open>forEach\<close> callback on the cache and on \<^verbatim>\<open>newSmoothedPositions\<close>
  (\<^verbatim>\<open>newTargetPositions\<close> is written and never read). The cache is a plain object:
  for a body whose name is an inherited key the lookup finds an object that is not
  an entry, its \<^verbatim>\<open>current\<close> is \<^verbatim>\<open>undefined\<close>, and reading \<^verbatim>\<open>current.x\<close> throws
  a \<^verbatim>\<open>TypeError\<close>.
\<close>

definition updateBody ::
  "TimeZone \<Rightarrow> PlanetDataByDate \<Rightarrow> Date \<Rightarrow> jsnum \<Rightarrow> int \<Rightarrow> Position3
     \<Rightarrow> int \<times> CelestialBodyConfig
     \<Rightarrow> (string \<times> CachedPosition) list \<times> PlanetPositions
     \<Rightarrow> error + (string \<times> CachedPosition) list \<times> PlanetPositions" where
  "updateBody zone table exactDate deltaTime earthIndex earthOriginalPosition entry acc =
     (let index = fst entry; body = snd entry in
      case newTargetPosFor zone table exactDate earthIndex earthOriginalPosition index body of
        Inl err \<Rightarrow> Inl err
      | Inr newTargetPos \<Rightarrow>
          (if body_name body \<in> set inheritedKeys then Inl TypeError
           else
             (let cached = (case map_of (fst acc) (body_name body) of
                              None \<Rightarrow> \<lparr>target = newTargetPos, current = newTargetPos,
                                        velocity = \<lparr>px = Fin 0, py = Fin 0, pz = Fin 0\<rparr>\<rparr>
                            | Some c \<Rightarrow> c\<lparr>target := newTargetPos\<rparr>);
                  cached' = springStep body deltaTime cached
              in Inr (AList.update (body_name body) cached' (fst acc),
                      AList.update (body_name body) (current cached') (snd acc)))))"

fun forEachBody ::
  "('b \<Rightarrow> 'c \<Rightarrow> error + 'c) \<Rightarrow> 'b list \<Rightarrow> 'c \<Rightarrow> error + 'c" where
  "forEachBody f [] acc = Inr acc"
| "forEachBody f (b # bs) acc =
     (case f b acc of Inl err \<Rightarrow> Inl err | Inr acc' \<Rightarrow> forEachBody f bs acc')"

definition positionUpdates :: "AnimationProps \<Rightarrow> PlanetPositions \<Rightarrow> Callback list" where
  "positionUpdates props positions =
     (if onPositionUpdate props then map (\<lambda>entry. PositionUpdate (fst entry) (snd entry)) positions
      else [])"

text \<open>
  The end of the animation (the branch \<^verbatim>\<open>elapsedMs >= totalMs\<close>): the date becomes
  the end date, \<^verbatim>\<open>setAllPlanetPositions(prev => ({...prev}))\<close> stores a copy of the
  positions it finds, and the two flags change.
\<close>

definition finalizeAnimation ::
  "AnimationProps \<Rightarrow> AnimationState \<Rightarrow> AnimationState \<times> Callback list" where
  "finalizeAnimation props st =
     (let finalDate = newDateOfNumber (getTime (endDate props))
      in (st\<lparr>currentDateRef := finalDate, currentDate := finalDate,
              allPlanetPositions := allPlanetPositions st,
              isAnimationActive := False, isAnimationComplete := True\<rparr>,
          DateChange finalDate # (if onTextureChange props then [TextureChange] else [])))"

text \<open>
  The quantities of a frame: the span \<^verbatim>\<open>totalMs\<close> of the animation, the state
  once the capped time step is added to the accumulator (which the first active
  frame resets), and \<^verbatim>\<open>elapsedMs\<close>, the accumulated time mapped onto the span.
\<close>

definition totalMsOf :: "AnimationProps \<Rightarrow> jsnum" where
  "totalMsOf props = getTime (endDate props) - getTime (startDate props)"

definition accumulate :: "jsnum \<Rightarrow> AnimationState \<Rightarrow> AnimationState" where
  "accumulate deltaTime st =
     (let st1 = (if \<not> hasStartedRef st
                 then st\<lparr>hasStartedRef := True, accumulatedMsRef := Fin 0\<rparr> else st)
      in st1\<lparr>accumulatedMsRef := accumulatedMsRef st1 + deltaTime * Fin 1000\<rparr>)"

definition elapsedMsOf :: "AnimationProps \<Rightarrow> AnimationState \<Rightarrow> jsnum" where
  "elapsedMsOf props st =
     (let elapsedFactor = accumulatedMsRef st / (animationDuration props * Fin 1000)
      in Math_min (elapsedFactor * totalMsOf props) (totalMsOf props))"

text \<open>
  The callback of \<^verbatim>\<open>useFrame\<close>, for a frame with the time step \<open>delta\<close> at the
  clock reading \<open>now\<close> of \<^verbatim>\<open>Date.now()\<close>, in the time zone of the device: the new
  state and the calls made, or the error that escapes the frame.
\<close>

definition useFrame ::
  "TimeZone \<Rightarrow> AnimationProps \<Rightarrow> jsnum \<Rightarrow> jsnum \<Rightarrow> AnimationState
     \<Rightarrow> error + AnimationState \<times> Callback list" where
  "useFrame zone props delta now st =
     (let totalMs = totalMsOf props;
          earthIndex = findIndex (\<lambda>body. body_name body = ''Earth'') (celestialBodies props)
      in
      if \<not> readyToAnimate props \<or> totalMs \<le> Fin 0 then Inr (st, [])
      else
        (let deltaTime = Math_min delta (Fin 0.1) in
         if isAnimationActive st then
           (let st2 = accumulate deltaTime st;
                elapsedMs = elapsedMsOf props st2
            in
            if totalMs \<le> elapsedMs then Inr (finalizeAnimation props st2)
            else
              (let exactDate = newDateOfNumber (getTime (startDate props) + elapsedMs);
                   st3 = st2\<lparr>currentDateRef := exactDate\<rparr>;
                   shown = Fin 100 < now - lastDateUpdateRef st3;
                   st4 = (if shown then st3\<lparr>currentDate := exactDate, lastDateUpdateRef := now\<rparr>
                          else st3);
                   calls = (if shown then [DateChange exactDate] else [])
               in
               if totalMs \<le> elapsedMs then
                 Inr (st4\<lparr>allPlanetPositions := allPlanetPositions st4,
                          isAnimationActive := False, isAnimationComplete := True\<rparr>,
                      calls @ (if onTextureChange props then [TextureChange] else []))
               else
                 (case earthOriginalPositionAt zone (planetDataByDate props) earthIndex exactDate of
                    Inl err \<Rightarrow> Inl err
                  | Inr earthOriginalPosition \<Rightarrow>
                      (case forEachBody
                              (updateBody zone (planetDataByDate props) exactDate deltaTime earthIndex
                                 earthOriginalPosition)
                              (zip (map int [0..<length (celestialBodies props)]) (celestialBodies props))
                              (cachedPositionsRef st4, []) of
                         Inl err \<Rightarrow> Inl err
                       | Inr (cache, newSmoothedPositions) \<Rightarrow>
                           (let st5 = st4\<lparr>cachedPositionsRef := cache,
                                          allPlanetPositions := newSmoothedPositions,
                                          frameCountRef := frameCountRef st4 + 1\<rparr>
                            in Inr (st5,
                                    calls @ positionUpdates props newSmoothedPositions
                                      @ (if onFramesRendered props
                                         then [FramesRendered (frameCountRef st5)] else [])))))))
         else if isAnimationComplete st then
           Inr (st, if 0 < length (allPlanetPositions st)
                    then positionUpdates props (allPlanetPositions st) else [])
         else Inr (st, [])))"

text \<open>
  What the component renders for a body whose name is not an inherited key:
  \<^verbatim>\<open>allPlanetPositions[body.name]\<close>, or the origin when there is no entry.
\<close>

definition renderedPosition :: "AnimationState \<Rightarrow> string \<Rightarrow> Position3" where
  "renderedPosition st bodyName =
     (case map_of (allPlanetPositions st) bodyName of Some p \<Rightarrow> p | None \<Rightarrow> origin)"

section \<open>Tables of the service\<close>

text \<open>The index of a body in \<^verbatim>\<open>PLANET_IDS\<close>, as the service looks it up.\<close>

definition indexOf :: "string \<Rightarrow> int" where
  "indexOf planetId = findIndex (\<lambda>p. fst p = planetId) PLANET_IDS"

text \<open>A slot of the table holds data: the date has an array and the slot is not \<^verbatim>\<open>null\<close>.\<close>

definition rowFilled :: "PlanetDataByDate \<Rightarrow> dateString \<Rightarrow> nat \<Rightarrow> bool" where
  "rowFilled table date k =
     (case map_of table date of None \<Rightarrow> False | Some arr \<Rightarrow> k < length arr \<and> arr ! k \<noteq> None)"

text \<open>No array of the table has more than the nine slots of the bodies.\<close>

definition rowsWithin :: "PlanetDataByDate \<Rightarrow> bool" where
  "rowsWithin table = (\<forall>date arr. map_of table date = Some arr \<longrightarrow> length arr \<le> 9)"

text \<open>
  The request for a body over the days \<open>n1\<close> to \<open>n3\<close> succeeds for every date:
  the provider answers with rows that include each day of the range.
\<close>

definition fetchSucceeds :: "Provider \<Rightarrow> int \<Rightarrow> int \<Rightarrow> string \<Rightarrow> bool" where
  "fetchSucceeds provider n1 n3 planetId =
     (\<exists>results. provider planetId n1 n3 = Inr results
        \<and> (\<forall>n. n1 \<le> n \<and> n \<le> n3 \<longrightarrow> ISODate n \<in> fst ` set results))"

text \<open>
  The table that \<^verbatim>\<open>getAllStoredData() || {}\<close> reads from a store, and the table
  once the rows that the provider returns for the eight bodies after the Sun, asked
  for the days \<open>reqStart\<close> to \<open>reqEnd\<close>, are stored in it; a body whose request
  fails leaves the table as it is.
\<close>

definition storedTable :: "AsyncStorage \<Rightarrow> PlanetDataByDate" where
  "storedTable st = (case planet_data_v2 st of Some d \<Rightarrow> d | None \<Rightarrow> [])"

definition mergeFetched :: "Provider \<Rightarrow> int \<Rightarrow> int \<Rightarrow> PlanetDataByDate \<Rightarrow> PlanetDataByDate" where
  "mergeFetched provider reqStart reqEnd table =
     foldl (\<lambda>tbl planet. case provider (fst planet) reqStart reqEnd of
                             Inl err \<Rightarrow> tbl
                           | Inr rows \<Rightarrow> foldl (storeForDate (fst planet)) tbl rows)
           table (tl PLANET_IDS)"

section \<open>Sample inputs\<close>

text \<open>The circular orbit of the scenario: unit radius, zero angles, a period of a year.\<close>

definition circularOrbit :: PlanetData where
  "circularOrbit = \<lparr>pd_a = Fin 1, pd_e = Fin 0, pd_i = Fin 0, pd_om = Fin 0, pd_w = Fin 0,
                    pd_M0 = Fin 0, pd_T = Fin 365.25\<rparr>"

text \<open>The same orbit with a mean anomaly of 370 degrees.\<close>

definition wrappedAnomaly :: PlanetData where
  "wrappedAnomaly = \<lparr>pd_a = Fin 1, pd_e = Fin 0, pd_i = Fin 0, pd_om = Fin 0, pd_w = Fin 0,
                     pd_M0 = Fin 370, pd_T = Fin 365.25\<rparr>"

text \<open>An empty store, a provider with rows for the days 0 to 2, and one with no rows.\<close>

definition emptyStorage :: AsyncStorage where
  "emptyStorage = \<lparr>planet_data_v2 = None, planet_data_meta_v2 = None, rejecting = False\<rparr>"

definition threeDays :: Provider where
  "threeDays planetId reqStart reqEnd =
     Inr [(ISODate 0, circularOrbit), (ISODate 1, circularOrbit), (ISODate 2, circularOrbit)]"

definition noRows :: Provider where
  "noRows planetId reqStart reqEnd = Inr []"

text \<open>
  A short animation of two bodies over one day: the Earth on the circular orbit on
  day 0 and on an orbit of twice the radius on day 1, the Sun with its zero elements,
  and a duration of 0.15 seconds; the state after the first frame of 0.1 seconds
  and the state after the second.
\<close>

definition wideOrbit :: PlanetData where
  "wideOrbit = \<lparr>pd_a = Fin 2, pd_e = Fin 0, pd_i = Fin 0, pd_om = Fin 0, pd_w = Fin 0,
                 pd_M0 = Fin 0, pd_T = Fin 365.25\<rparr>"

definition sunBody :: CelestialBodyConfig where
  "sunBody = \<lparr>body_name = ''Sun'', body_color = ''yellow'', body_size = Fin 2\<rparr>"

definition earthBody :: CelestialBodyConfig where
  "earthBody = \<lparr>body_name = ''Earth'', body_color = ''blue'', body_size = Fin 1\<rparr>"

definition twoDayTable :: PlanetDataByDate where
  "twoDayTable = [(ISODate 0, [Some sunZeroData, Some circularOrbit]),
                  (ISODate 1, [Some sunZeroData, Some wideOrbit])]"

definition shortAnimation :: AnimationProps where
  "shortAnimation =
     \<lparr>startDate = Some 0, endDate = Some 86400000, animationDuration = Fin (3 / 20),
      planetDataByDate = twoDayTable, celestialBodies = [sunBody, earthBody],
      readyToAnimate = True, onTextureChange = False, onPositionUpdate = False,
      onFramesRendered = False\<rparr>"

definition sunShown :: Position3 where
  "sunShown = \<lparr>px = Fin (- (3 / 20000000)), py = Fin 0, pz = Fin 0\<rparr>"

definition afterFirstFrame :: AnimationState where
  "afterFirstFrame =
     \<lparr>currentDate = Some 57600000,
      allPlanetPositions = [(''Sun'', sunShown), (''Earth'', origin)],
      isAnimationComplete = False, isAnimationActive = True,
      currentDateRef = Some 57600000, lastDateUpdateRef = Fin 1000, frameCountRef = 1,
      hasStartedRef = True, accumulatedMsRef = Fin 100,
      cachedPositionsRef =
        [(''Sun'', \<lparr>target = sunShown, current = sunShown, velocity = origin\<rparr>),
         (''Earth'', \<lparr>target = origin, current = origin, velocity = origin\<rparr>)]\<rparr>"

definition afterSecondFrame :: AnimationState where
  "afterSecondFrame =
     afterFirstFrame\<lparr>currentDate := Some 86400000, currentDateRef := Some 86400000,
       accumulatedMsRef := Fin 200, isAnimationActive := False, isAnimationComplete := True\<rparr>"

text \<open>
  Central European time in the spring of 2025: one hour ahead of UTC until
  2025-03-30T01:00Z, two hours from then on. The days 20176 to 20179 are 2025-03-29
  to 2025-04-01. A provider that answers every request with a row for each day of
  the requested range, and the store that the service leaves when it fetches these
  four days into an empty store in this zone.
\<close>

definition centralEurope2025 :: TimeZone where
  "centralEurope2025 = TimeZone 3600000 1743296400000 7200000"

definition everyDay :: Provider where
  "everyDay planetId reqStart reqEnd = Inr (map (\<lambda>n. (ISODate n, circularOrbit)) [reqStart..reqEnd])"

definition fetchedRow :: "PlanetData option list" where
  "fetchedRow = replicate 8 (Some circularOrbit)"

definition afterExtend :: AsyncStorage where
  "afterExtend =
     \<lparr>planet_data_v2 = Some
        [(ISODate 20176, Some sunZeroData # fetchedRow),
         (ISODate 20177, Some sunZeroData # fetchedRow),
         (ISODate 20178, Some sunZeroData # fetchedRow),
         (ISODate 20179, None # fetchedRow)],
      planet_data_meta_v2 = Some \<lparr>lastCleanup = ISODate 20176,
        dataRange = Some \<lparr>range_start = ISODate 20176, range_end = ISODate 20179\<rparr>\<rparr>,
      rejecting = False\<rparr>"




section \<open>Arithmetic of finite numbers\<close>

lemma Fin_minus [simp]: "Fin a - Fin b = Fin (a - b)"
  by (simp add: minus_jsnum_def)

lemma sin_lipschitz: "\<bar>sin a - sin b\<bar> \<le> \<bar>a - b\<bar>" for a b :: real
proof -
  have "\<bar>sin a - sin b\<bar> = 2 * \<bar>sin ((a - b) / 2)\<bar> * \<bar>cos ((a + b) / 2)\<bar>"
    by (simp add: sin_diff_sin abs_mult)
  also have "\<dots> \<le> 2 * \<bar>(a - b) / 2\<bar> * 1"
    by (intro mult_mono mult_nonneg_nonneg abs_sin_x_le_abs_x) auto
  finally show ?thesis by simp
qed

lemma cos_lower: "1 - x\<^sup>2 / 2 \<le> cos x" for x :: real
proof -
  have "cos x = 1 - 2 * (sin (x / 2))\<^sup>2"
    using cos_double_sin [of "x / 2"] by simp
  moreover have "(sin (x / 2))\<^sup>2 \<le> (x / 2)\<^sup>2"
    using abs_sin_x_le_abs_x [of "x / 2"] by (metis abs_le_square_iff)
  ultimately show ?thesis by (simp add: power2_eq_square)
qed

lemma sin_lower:
  fixes x :: real
  assumes "0 \<le> x" "x \<le> 2 / 5"
  shows "9 / 10 * x \<le> sin x"
proof -
  let ?f = "\<lambda>u. sin u - 9 / 10 * u"
  have "\<exists>y. (?f has_real_derivative y) (at u) \<and> 0 \<le> y" if "0 \<le> u" "u \<le> x" for u
  proof -
    have "(?f has_real_derivative cos u - 9 / 10) (at u)"
      by (auto intro!: derivative_eq_intros)
    moreover have "u\<^sup>2 \<le> (2 / 5)\<^sup>2"
      using that assms by (intro power_mono) auto
    then have "9 / 10 \<le> cos u"
      using cos_lower [of u] by (simp add: power2_eq_square)
    ultimately show ?thesis by force
  qed
  then have "?f 0 \<le> ?f x"
    by (intro DERIV_nonneg_imp_nondecreasing [OF assms(1)]) auto
  then show ?thesis by simp
qed

lemma sin_diff_lower:
  fixes E P :: real
  assumes "0 \<le> P" "P \<le> E" "E \<le> 1 / 10"
  shows "4 / 5 * (E - P) \<le> sin E - sin P"
proof -
  define h where "h = (E - P) / 2"
  define m where "m = (E + P) / 2"
  have h: "0 \<le> h" "h \<le> 2 / 5" and m: "0 \<le> m" "m \<le> 1 / 10"
    using assms by (auto simp: h_def m_def)
  have "m\<^sup>2 \<le> (1 / 10)\<^sup>2"
    using m by (intro power_mono) auto
  then have c: "9 / 10 \<le> cos m"
    using cos_lower [of m] by (simp add: power2_eq_square)
  have s: "9 / 10 * h \<le> sin h"
    using sin_lower [OF h] .
  have "9 / 10 * h * (9 / 10) \<le> sin h * cos m"
    using s c h by (intro mult_mono) auto
  moreover have "sin E - sin P = 2 * sin h * cos m"
    by (simp add: sin_diff_sin h_def m_def)
  ultimately show ?thesis
    using h by (simp add: h_def)
qed

section \<open>The Kepler iteration\<close>

text \<open>
  The first round of the loop always runs, since \<^verbatim>\<open>prevE\<close> starts one below
  \<^verbatim>\<open>E\<close>; from then on \<^verbatim>\<open>E\<close> is the image of \<^verbatim>\<open>prevE\<close> under the iteration.
\<close>

lemma solveKepler_first:
  "solveKepler (Fin M) (Fin e) = keplerLoop (Fin M) (Fin e) (Fin (M + e * sin M), Fin M, 1)"
  unfolding solveKepler_def
  by (subst keplerLoop.simps) (simp add: tolerance_def maxIterations_def)

text \<open>
  For the eccentricity 0.9 and the mean anomaly 0.01 the iterates increase and stay
  below 0.1, where the sine shrinks a difference by no more than a fifth: the steps
  stay above \<open>(18/25)\<^sup>k / 100\<close> and the loop runs to its cap.
\<close>

lemma keplerLoop_lower:
  fixes E P :: real
  assumes "n = 10 - k" "k \<le> 10" "1 / 100 \<le> P" "P \<le> E" "E \<le> 1 / 10"
    and "E = 1 / 100 + 9 / 10 * sin P"
    and "1 / 100 * (18 / 25) ^ k \<le> E - P"
  shows "\<exists>E' P'. keplerLoop (Fin (1 / 100)) (Fin (9 / 10)) (Fin E, Fin P, k) = (Fin E', Fin P', 10)
             \<and> 1 / 100 * (18 / 25) ^ 10 \<le> E' - P'"
  using assms
proof (induction n arbitrary: E P k)
  case 0
  then have k: "k = 10" by simp
  show ?case
    using "0.prems" by (simp add: k keplerLoop.simps maxIterations_def)
next
  case (Suc n)
  then have k: "k < 10" by simp
  have "(18 / 25 :: real) ^ 10 \<le> (18 / 25) ^ k"
    using k by (intro power_decreasing) auto
  then have "1 / 100 * (18 / 25 :: real) ^ 10 \<le> 1 / 100 * (18 / 25) ^ k"
    by (intro mult_left_mono) auto
  moreover have "1 / 1000000 < 1 / 100 * (18 / 25 :: real) ^ 10" by (simp add: power_divide)
  ultimately have big: "1 / 1000000 < E - P"
    using Suc.prems(7) by linarith
  define E' where "E' = 1 / 100 + 9 / 10 * sin E"
  have sE: "sin E \<le> E" using Suc.prems by (intro sin_x_le_x) auto
  have d: "4 / 5 * (E - P) \<le> sin E - sin P"
    using Suc.prems by (intro sin_diff_lower) auto
  have 1: "E \<le> E'" using d Suc.prems by (simp add: E'_def)
  have 2: "E' \<le> 1 / 10" using sE Suc.prems by (simp add: E'_def)
  have "E' - E = 9 / 10 * (sin E - sin P)"
    using Suc.prems(6) by (simp add: E'_def algebra_simps)
  then have 3: "1 / 100 * (18 / 25) ^ Suc k \<le> E' - E"
    using d Suc.prems(7) by simp
  have "\<exists>E'' P'. keplerLoop (Fin (1 / 100)) (Fin (9 / 10)) (Fin E', Fin E, Suc k) = (Fin E'', Fin P', 10)
             \<and> 1 / 100 * (18 / 25) ^ 10 \<le> E'' - P'"
    using Suc.prems k 1 2 3 by (intro Suc.IH) (auto simp: E'_def)
  moreover have "keplerLoop (Fin (1 / 100)) (Fin (9 / 10)) (Fin E, Fin P, k)
      = keplerLoop (Fin (1 / 100)) (Fin (9 / 10)) (Fin E', Fin E, Suc k)"
    using big k Suc.prems(4) by (subst keplerLoop.simps) (simp add: tolerance_def maxIterations_def E'_def)
  ultimately show ?case by simp
qed

text \<open>
  The sine is 1-Lipschitz, so every step is at most \<open>e\<close> times the one before it:
  after \<open>k\<close> rounds the step is at most \<open>e\<^sup>k\<close>.
\<close>

lemma keplerLoop_upper:
  fixes E P M e :: real
  assumes "n = 10 - k" "k \<le> 10" "0 \<le> e" "e \<le> 1 / 4"
    and "E = M + e * sin P"
    and "\<bar>E - P\<bar> \<le> e ^ k"
  shows "\<exists>E' P' k'. keplerLoop (Fin M) (Fin e) (Fin E, Fin P, k) = (Fin E', Fin P', k')
             \<and> k' \<le> 10 \<and> \<bar>E' - P'\<bar> \<le> 1 / 1000000 \<and> (k' = 10 \<longrightarrow> \<bar>E' - P'\<bar> < 1 / 1000000)"
  using assms
proof (induction n arbitrary: E P k)
  case 0
  then have k: "k = 10" by simp
  have "e ^ 10 \<le> (1 / 4) ^ 10"
    using "0.prems" by (intro power_mono) auto
  moreover have "(1 / 4 :: real) ^ 10 < 1 / 1000000" by (simp add: power_divide)
  ultimately have "\<bar>E - P\<bar> < 1 / 1000000"
    using "0.prems"(6) unfolding k by linarith
  then show ?case
    by (simp add: k keplerLoop.simps maxIterations_def)
next
  case (Suc n)
  then have k: "k < 10" by simp
  show ?case
  proof (cases "1 / 1000000 < \<bar>E - P\<bar>")
    case False
    then show ?thesis using k
      by (subst keplerLoop.simps) (simp add: tolerance_def)
  next
    case True
    define E' where "E' = M + e * sin E"
    have "E' - E = e * (sin E - sin P)"
      using Suc.prems(5) by (simp add: E'_def algebra_simps)
    then have "\<bar>E' - E\<bar> = e * \<bar>sin E - sin P\<bar>"
      using Suc.prems(3) by (simp add: abs_mult)
    also have "\<dots> \<le> e * \<bar>E - P\<bar>"
      using Suc.prems(3) by (intro mult_left_mono sin_lipschitz)
    also have "\<dots> \<le> e * e ^ k"
      using Suc.prems by (intro mult_left_mono) auto
    finally have 3: "\<bar>E' - E\<bar> \<le> e ^ Suc k" by simp
    have "\<exists>E'' P' k'. keplerLoop (Fin M) (Fin e) (Fin E', Fin E, Suc k) = (Fin E'', Fin P', k')
             \<and> k' \<le> 10 \<and> \<bar>E'' - P'\<bar> \<le> 1 / 1000000 \<and> (k' = 10 \<longrightarrow> \<bar>E'' - P'\<bar> < 1 / 1000000)"
      using Suc.prems k 3 by (intro Suc.IH) (auto simp: E'_def)
    moreover have "keplerLoop (Fin M) (Fin e) (Fin E, Fin P, k)
        = keplerLoop (Fin M) (Fin e) (Fin E', Fin E, Suc k)"
      using True k by (subst keplerLoop.simps) (simp add: tolerance_def maxIterations_def E'_def)
    ultimately show ?thesis by simp
  qed
qed

text \<open>
  C1, as stated: for every eccentricity in [0, 0.9] and mean anomaly in [0, 2 pi) the
  iteration reaches a step below 1e-6 within 10 iterations. It fails at the
  eccentricity 0.9 and the mean anomaly 0.01: the loop stops at its cap of 10
  iterations with a last step above the tolerance (so no earlier step was within
  it, or the loop would have stopped there).
\<close>

theorem solveKepler_cap_counterexample:
  "tolerance < \<bar>fst (solveKepler (Fin (1 / 100)) (Fin (9 / 10)))
                  - fst (snd (solveKepler (Fin (1 / 100)) (Fin (9 / 10))))\<bar>
   \<and> snd (snd (solveKepler (Fin (1 / 100)) (Fin (9 / 10)))) = maxIterations"
proof -
  define P :: real where "P = 1 / 100"
  define E :: real where "E = 1 / 100 + 9 / 10 * sin P"
  have l: "9 / 10 * P \<le> sin P" unfolding P_def by (intro sin_lower) auto
  have u: "sin P \<le> P" unfolding P_def by (intro sin_x_le_x) auto
  have "\<exists>E' P'. keplerLoop (Fin (1 / 100)) (Fin (9 / 10)) (Fin E, Fin P, 1) = (Fin E', Fin P', 10)
             \<and> 1 / 100 * (18 / 25) ^ 10 \<le> E' - P'"
  proof (rule keplerLoop_lower [where n = 9])
    show "9 = 10 - (1::nat)" by simp
    show "(1::nat) \<le> 10" by simp
    show "1 / 100 \<le> P" by (simp add: P_def)
    show "P \<le> E" using l by (simp add: E_def P_def)
    show "E \<le> 1 / 10" using u by (simp add: E_def P_def)
    show "E = 1 / 100 + 9 / 10 * sin P" by (simp add: E_def)
    show "1 / 100 * (18 / 25) ^ 1 \<le> E - P" using l by (simp add: E_def P_def)
  qed
  then obtain E' P' where r: "keplerLoop (Fin (1 / 100)) (Fin (9 / 10)) (Fin E, Fin P, 1) = (Fin E', Fin P', 10)"
    and b: "1 / 100 * (18 / 25) ^ 10 \<le> E' - P'"
    by blast
  have "1 / 1000000 < 1 / 100 * (18 / 25 :: real) ^ 10" by (simp add: power_divide)
  then have "1 / 1000000 < \<bar>E' - P'\<bar>" using b by linarith
  moreover have "solveKepler (Fin (1 / 100)) (Fin (9 / 10)) = (Fin E', Fin P', 10)"
    using r by (simp add: solveKepler_first E_def P_def)
  ultimately show ?thesis
    by (simp add: tolerance_def maxIterations_def)
qed

text \<open>
  C1, amended: for every eccentricity in [0, 0.25] and every mean anomaly in
  [0, 2 pi) the loop of the solver stops after at most 10 iterations with its
  convergence test met, that is with a last step of at most 1e-6, and of less than
  1e-6 when it ran all 10 iterations.
\<close>

theorem solveKepler_converges:
  assumes "0 \<le> e" "e \<le> 1 / 4" and "0 \<le> M" "M < 2 * pi"
  shows "\<exists>E prevE k. solveKepler (Fin M) (Fin e) = (E, prevE, k) \<and> k \<le> maxIterations
           \<and> \<bar>E - prevE\<bar> \<le> tolerance \<and> (k = maxIterations \<longrightarrow> \<bar>E - prevE\<bar> < tolerance)"
proof -
  have "\<bar>e * sin M\<bar> \<le> e * 1"
    unfolding abs_mult using assms(1) by (intro mult_mono) auto
  then have d: "\<bar>M + e * sin M - M\<bar> \<le> e ^ 1" by simp
  have "\<exists>E' P' k'. keplerLoop (Fin M) (Fin e) (Fin (M + e * sin M), Fin M, 1) = (Fin E', Fin P', k')
             \<and> k' \<le> 10 \<and> \<bar>E' - P'\<bar> \<le> 1 / 1000000 \<and> (k' = 10 \<longrightarrow> \<bar>E' - P'\<bar> < 1 / 1000000)"
    by (rule keplerLoop_upper [where n = 9, OF _ _ assms(1,2) refl d]) simp_all
  then obtain E' P' k' where r: "keplerLoop (Fin M) (Fin e) (Fin (M + e * sin M), Fin M, 1) = (Fin E', Fin P', k')"
    and b: "k' \<le> 10" "\<bar>E' - P'\<bar> \<le> 1 / 1000000" "k' = 10 \<longrightarrow> \<bar>E' - P'\<bar> < 1 / 1000000"
    by blast
  have "solveKepler (Fin M) (Fin e) = (Fin E', Fin P', k')"
    using r by (simp add: solveKepler_first)
  then show ?thesis
    using b by (simp add: tolerance_def maxIterations_def)
qed

theorem solveKepler_converges_witness:
  "(0::real) \<le> 1 / 5 \<and> (1 / 5 :: real) \<le> 1 / 4 \<and> (0::real) \<le> 1 \<and> 1 < 2 * pi \<and>
   (\<exists>E prevE k. solveKepler (Fin 1) (Fin (1 / 5)) = (E, prevE, k) \<and> k \<le> maxIterations
      \<and> \<bar>E - prevE\<bar> \<le> tolerance \<and> (k = maxIterations \<longrightarrow> \<bar>E - prevE\<bar> < tolerance))"
proof -
  have "(1::real) < 2 * pi" using pi_ge_two by linarith
  then show ?thesis
    using solveKepler_converges [of "1 / 5" 1] by simp
qed

section \<open>The position on a circular orbit\<close>

lemma keplerLoop_circular: "solveKepler (Fin 0) (Fin 0) = (Fin 0, Fin 0, 1)"
  by (simp add: solveKepler_def keplerLoop.simps tolerance_def maxIterations_def)

lemma position_circularOrbit:
  "calculateCelestialPosition circularOrbit (Fin 0) = \<lparr>px = Fin 1, py = Fin 0, pz = Fin 0\<rparr>"
  by (simp add: calculateCelestialPosition_def circularOrbit_def Let_def degToRad_def
      keplerLoop_circular)

lemma position_wideOrbit:
  "calculateCelestialPosition wideOrbit (Fin 0) = \<lparr>px = Fin 2, py = Fin 0, pz = Fin 0\<rparr>"
  by (simp add: calculateCelestialPosition_def wideOrbit_def Let_def degToRad_def
      keplerLoop_circular)

text \<open>
  Half a turn further, with M0 = 180, the half of the eccentric anomaly is at the pole
  of the tangent; the true anomaly is half a turn and the position is (-1, 0, 0).
\<close>

lemma keplerLoop_half: "solveKepler (Fin pi) (Fin 0) = (Fin pi, Fin pi, 1)"
  by (simp add: solveKepler_def keplerLoop.simps tolerance_def maxIterations_def)

lemma position_half_turn:
  "calculateCelestialPosition (circularOrbit\<lparr>pd_M0 := Fin 180\<rparr>) (Fin 0)
     = \<lparr>px = Fin (- 1), py = Fin 0, pz = Fin 0\<rparr>"
  by (simp add: calculateCelestialPosition_def circularOrbit_def Let_def degToRad_def
      keplerLoop_half signed_inf_def)

text \<open>
  C9: for the elements a = 1, e = 0, i = 0, om = 0, w = 0, M0 = 0, T = 365.25 and no
  elapsed days, \<^verbatim>\<open>calculateCelestialPosition\<close> returns the position (1, 0, 0).
\<close>

theorem calculateCelestialPosition_circular:
  "calculateCelestialPosition circularOrbit (Fin 0) = \<lparr>px = Fin 1, py = Fin 0, pz = Fin 0\<rparr>"
  by (simp add: calculateCelestialPosition_def circularOrbit_def Let_def degToRad_def
      keplerLoop_circular)

section \<open>The transform to the display frame\<close>

text \<open>
  C7: for every position of the body and every position of the Earth,
  \<^verbatim>\<open>transformToGeocentricVisualization\<close> called for the body 'Earth' returns
  (0, 0, 0).
\<close>

theorem transform_Earth_origin:
  "transformToGeocentricVisualization ''Earth'' position earthPosition
     = \<lparr>px = Fin 0, py = Fin 0, pz = Fin 0\<rparr>"
  by (simp add: transformToGeocentricVisualization_def)

text \<open>
  C8: for the body 'Sun' the result is the position of the Earth negated and scaled,
  with the vertical coordinate zero and the y of the Earth in the third place:
  (-earth.x * S, 0, -earth.y * S) for the scale S of the display.
\<close>

theorem transform_Sun_opposite:
  "transformToGeocentricVisualization ''Sun'' position earthPosition
     = \<lparr>px = - px earthPosition * ORBIT_VISUALIZATION_SCALE, py = Fin 0,
        pz = - py earthPosition * ORBIT_VISUALIZATION_SCALE\<rparr>"
  by (simp add: transformToGeocentricVisualization_def Let_def)

lemma solveKepler_NaN: "solveKepler NaN ecc = (NaN, NaN, 0)"
  by (simp add: solveKepler_def keplerLoop.simps tolerance_def maxIterations_def minus_jsnum_def)

lemma position_sunZeroData:
  "calculateCelestialPosition sunZeroData (Fin 0) = \<lparr>px = NaN, py = NaN, pz = NaN\<rparr>"
  by (simp add: calculateCelestialPosition_def sunZeroData_def Let_def degToRad_def
      solveKepler_NaN signed_inf_def minus_jsnum_def)

text \<open>
  C10: for the bodies 'Earth' and 'Sun' the result of the transform does not depend
  on the position of the body itself: two calls with the same position of the Earth
  and any two positions, finite or not, give the same result. The solver gives
  \<^verbatim>\<open>NaN\<close> in every coordinate for the all-zero elements that the service stores
  for the Sun (the mean motion is 2 pi / 0), and the transform of that position is
  still the one of C8.
\<close>

theorem transform_Earth_Sun_ignore_position:
  "transformToGeocentricVisualization ''Earth'' position earthPosition
     = transformToGeocentricVisualization ''Earth'' position' earthPosition
   \<and> transformToGeocentricVisualization ''Sun'' position earthPosition
     = transformToGeocentricVisualization ''Sun'' position' earthPosition
   \<and> calculateCelestialPosition sunZeroData (Fin 0) = \<lparr>px = NaN, py = NaN, pz = NaN\<rparr>
   \<and> transformToGeocentricVisualization ''Sun'' (calculateCelestialPosition sunZeroData (Fin 0))
        earthPosition
     = transformToGeocentricVisualization ''Sun'' origin earthPosition"
  by (simp add: transformToGeocentricVisualization_def calculateCelestialPosition_def
      sunZeroData_def Let_def degToRad_def solveKepler_NaN signed_inf_def minus_jsnum_def)

section \<open>Blending a set of elements with itself\<close>

lemma trunc_small: "\<bar>r\<bar> < 1 \<Longrightarrow> trunc r = 0"
  unfolding trunc_def by (auto simp: floor_eq_iff ceiling_eq_iff)

lemma interpolateAngle_same:
  assumes "\<bar>a\<bar> < 360"
  shows "interpolateAngle (Fin a) (Fin a) (Fin t) = Fin a"
proof -
  have "\<bar>a / 360\<bar> < 1" using assms by simp
  then have "trunc (a / 360) = 0" by (rule trunc_small)
  then show ?thesis
    by (simp add: interpolateAngle_def trunc_def)
qed

text \<open>
  C5, as stated: for every set of elements X and every t in [0, 1],
  \<^verbatim>\<open>interpolateOrbitalElements(X, X, t)\<close> equals X. It fails for a mean anomaly of
  370 degrees, which the final \<^verbatim>\<open>% 360\<close> of the angle interpolation turns into 10.
\<close>

theorem interpolateOrbitalElements_same_counterexample:
  "interpolateOrbitalElements wrappedAnomaly wrappedAnomaly (Fin (1 / 2)) \<noteq> wrappedAnomaly"
  by (simp add: interpolateOrbitalElements_def wrappedAnomaly_def interpolateAngle_def trunc_def)

text \<open>
  C5, amended: for every set of elements X with finite fields whose four angles
  i, om, w and M0 lie strictly between -360 and 360 degrees, and every finite t,
  \<^verbatim>\<open>interpolateOrbitalElements(X, X, t)\<close> equals X in every field.
\<close>

theorem interpolateOrbitalElements_same:
  assumes "X = \<lparr>pd_a = Fin a, pd_e = Fin e, pd_i = Fin i, pd_om = Fin om, pd_w = Fin w,
                 pd_M0 = Fin m0, pd_T = Fin T\<rparr>"
    and "\<bar>i\<bar> < 360" "\<bar>om\<bar> < 360" "\<bar>w\<bar> < 360" "\<bar>m0\<bar> < 360"
  shows "interpolateOrbitalElements X X (Fin t) = X"
  using assms by (simp add: interpolateOrbitalElements_def interpolateAngle_same)

theorem interpolateOrbitalElements_same_witness:
  "\<bar>0 :: real\<bar> < 360 \<and>
   interpolateOrbitalElements circularOrbit circularOrbit (Fin (1 / 2)) = circularOrbit"
  using interpolateOrbitalElements_same [of circularOrbit 1 0 0 0 0 0 "365.25" "1 / 2"]
  by (simp add: circularOrbit_def)

section \<open>The dates of a range\<close>

lemma toISODate_day [simp]: "toISODate (n * msPerDay) = ISODate n"
  by (simp add: toISODate_def msPerDay_def)

lemma msPerDay_pos: "0 < msPerDay"
  by (simp add: msPerDay_def)

lemma day_le_iff [simp]: "a * msPerDay \<le> b * msPerDay \<longleftrightarrow> a \<le> b"
  using msPerDay_pos by simp

lemma addLocalDay_fixed:
  "offsetBefore zone = offsetAfter zone \<Longrightarrow> addLocalDay zone t = t + msPerDay"
  by (simp add: addLocalDay_def Let_def)

lemma datesLoop_empty: "e < s \<Longrightarrow> datesLoop zone s e acc = acc"
  by (subst datesLoop.simps) simp

lemma localDay_day:
  assumes "offsetBefore zone = offsetAfter zone" "0 \<le> offsetBefore zone" "offsetBefore zone < msPerDay"
  shows "localDay zone (n * msPerDay) = n"
proof -
  have "localOffset zone (n * msPerDay) = offsetBefore zone"
    using assms(1) by (simp add: localOffset_def)
  then have "localDay zone (n * msPerDay) = (offsetBefore zone + n * msPerDay) div msPerDay"
    by (simp add: localDay_def add.commute)
  also have "\<dots> = offsetBefore zone div msPerDay + n"
    using msPerDay_pos by simp
  also have "\<dots> = n"
    using assms(2,3) by simp
  finally show ?thesis .
qed

lemma datesLoop_days:
  assumes fixed: "offsetBefore zone = offsetAfter zone"
  shows "datesLoop zone (a * msPerDay) (b * msPerDay) acc = acc @ map ISODate [a..b]"
proof (induction "nat (b - a + 1)" arbitrary: a acc)
  case 0
  then have "b < a" by simp
  then show ?case
    by (subst datesLoop.simps) simp
next
  case (Suc k)
  then have le: "a \<le> b" and k: "k = nat (b - (a + 1) + 1)" by auto
  have "datesLoop zone (a * msPerDay) (b * msPerDay) acc
      = datesLoop zone ((a + 1) * msPerDay) (b * msPerDay) (acc @ [ISODate a])"
    using le by (subst datesLoop.simps) (simp add: distrib_right addLocalDay_fixed [OF fixed])
  also have "\<dots> = (acc @ [ISODate a]) @ map ISODate [a + 1..b]"
    using k by (rule Suc.hyps(1))
  finally show ?case
    using le by (simp add: upto_rec1)
qed

lemma getDatesBetween_days:
  "offsetBefore zone = offsetAfter zone \<Longrightarrow>
   getDatesBetween zone (ISODate a) (ISODate b) = map ISODate [a..b]"
  by (simp add: getDatesBetween_def datesLoop_days)

lemma getTime_day_le:
  "getTime (newDate (ISODate a)) \<le> getTime (newDate (ISODate b)) \<longleftrightarrow> a \<le> b"
  by (simp only: newDate.simps getTime.simps less_eq_jsnum.simps of_int_le_iff day_le_iff)

section \<open>Filling the table\<close>

lemma length_setIndex: "length (setIndex arr k v) = max (length arr) (Suc k)"
  by (auto simp: setIndex_def)

lemma setIndex_nth_same: "k < length (setIndex arr k v) \<and> setIndex arr k v ! k = Some v"
  by (auto simp: setIndex_def nth_append)

lemma setIndex_nth_filled:
  "j < length arr \<Longrightarrow> arr ! j = Some y \<Longrightarrow> \<exists>y'. setIndex arr k v ! j = Some y'"
  by (auto simp: setIndex_def nth_append nth_list_update)

lemma setIndex_length_mono: "j < length arr \<Longrightarrow> j < length (setIndex arr k v)"
  by (simp add: length_setIndex)

lemma length_PLANET_IDS: "length PLANET_IDS = 9"
  by (simp add: PLANET_IDS_def)

lemma map_of_storeForDate:
  "map_of (storeForDate planetId table (date, v)) =
     (map_of table)(date \<mapsto>
        (let arr = (case map_of table date of None \<Rightarrow> replicate 9 None | Some arr \<Rightarrow> arr)
         in if indexOf planetId \<noteq> - 1 then setIndex arr (nat (indexOf planetId)) v else arr))"
  by (auto simp: storeForDate_def indexOf_def Let_def update_conv' length_PLANET_IDS
      split: option.splits)

lemma storeForDate_rowsWithin:
  assumes "rowsWithin table" "indexOf planetId < 9"
  shows "rowsWithin (storeForDate planetId table entry)"
proof -
  obtain date v where e: "entry = (date, v)" by (cases entry)
  show ?thesis
    using assms unfolding e rowsWithin_def map_of_storeForDate
    by (auto simp: Let_def length_setIndex split: option.splits if_splits)
qed

lemma storeForDate_rowFilled_mono:
  assumes "rowFilled table d j"
  shows "rowFilled (storeForDate planetId table entry) d j"
proof -
  obtain date v where e: "entry = (date, v)" by (cases entry)
  show ?thesis
    using assms unfolding e rowFilled_def map_of_storeForDate
    by (auto simp: Let_def setIndex_length_mono split: option.splits intro: setIndex_nth_filled)
qed

lemma storeForDate_rowFilled_same:
  assumes "0 \<le> indexOf planetId"
  shows "rowFilled (storeForDate planetId table (date, v)) date (nat (indexOf planetId))"
  using assms unfolding rowFilled_def map_of_storeForDate
  by (auto simp: Let_def setIndex_nth_same split: option.splits)

lemma foldl_storeForDate:
  assumes "rowsWithin table" "0 \<le> indexOf planetId" "indexOf planetId < 9"
  shows "rowsWithin (foldl (storeForDate planetId) table entries)
       \<and> (\<forall>d j. rowFilled table d j \<longrightarrow> rowFilled (foldl (storeForDate planetId) table entries) d j)
       \<and> (\<forall>d \<in> fst ` set entries. rowFilled (foldl (storeForDate planetId) table entries) d (nat (indexOf planetId)))"
  using assms(1)
proof (induction entries arbitrary: table)
  case Nil
  then show ?case by simp
next
  case (Cons e entries)
  obtain date v where e: "e = (date, v)" by (cases e)
  let ?t = "storeForDate planetId table e"
  have w: "rowsWithin ?t" using Cons.prems assms(3) by (rule storeForDate_rowsWithin)
  note IH = Cons.IH [OF w]
  have s: "rowFilled ?t date (nat (indexOf planetId))"
    unfolding e using assms(2) by (rule storeForDate_rowFilled_same)
  have m: "rowFilled ?t d j" if "rowFilled table d j" for d j
    using that by (rule storeForDate_rowFilled_mono)
  have "rowFilled (foldl (storeForDate planetId) ?t entries) date (nat (indexOf planetId))"
    using IH s by blast
  then show ?case
    using IH m by (simp add: e)
qed

lemma indexOf_range:
  "p \<in> set PLANET_IDS \<Longrightarrow> 0 \<le> indexOf (fst p) \<and> indexOf (fst p) < 9"
  by (auto simp: PLANET_IDS_def indexOf_def)

lemma indexOf_onto:
  assumes "k < 9"
  shows "\<exists>p \<in> set PLANET_IDS. nat (indexOf (fst p)) = k"
proof -
  have "k = 0 \<or> k = 1 \<or> k = 2 \<or> k = 3 \<or> k = 4 \<or> k = 5 \<or> k = 6 \<or> k = 7 \<or> k = 8"
    using assms by arith
  then show ?thesis
    by (auto simp: PLANET_IDS_def indexOf_def)
qed

lemma fetchPlanetData_days:
  assumes "n1 \<le> n3"
    and zone: "offsetBefore zone = offsetAfter zone" "0 \<le> offsetBefore zone"
      "offsetBefore zone < msPerDay"
  shows "fetchPlanetData zone provider planetId (ISODate n1) (ISODate n3)
     = (Inr (case provider planetId n1 n3 of Inl err \<Rightarrow> [] | Inr results \<Rightarrow> results),
        [(planetId, n1, n3)])"
  using assms(1) msPerDay_pos
  by (simp add: fetchPlanetData_def formatDateForHorizons_def Let_def localDay_day [OF zone])

lemma fetchPlanet_fills:
  assumes w: "rowsWithin (fst acc)" and p: "p \<in> set PLANET_IDS" and le: "n1 \<le> n3"
    and f: "fst p \<noteq> ''10'' \<longrightarrow> fetchSucceeds provider n1 n3 (fst p)"
    and zone: "offsetBefore zone = offsetAfter zone" "0 \<le> offsetBefore zone"
      "offsetBefore zone < msPerDay"
  defines "t \<equiv> fst (fetchPlanet zone provider (ISODate n1) (ISODate n3) (map ISODate [n1..n3]) p acc)"
  shows "rowsWithin t \<and> (\<forall>d j. rowFilled (fst acc) d j \<longrightarrow> rowFilled t d j)
       \<and> (\<forall>n. n1 \<le> n \<and> n \<le> n3 \<longrightarrow> rowFilled t (ISODate n) (nat (indexOf (fst p))))"
proof (cases "fst p = ''10''")
  case True
  have t: "t = foldl (storeForDate (fst p)) (fst acc) (map (\<lambda>date. (date, sunZeroData)) (map ISODate [n1..n3]))"
    by (simp add: t_def fetchPlanet_def True Let_def)
  have "fst ` set (map (\<lambda>date. (date, sunZeroData)) (map ISODate [n1..n3])) = ISODate ` {n1..n3}"
    by (auto simp: image_iff)
  then show ?thesis
    using foldl_storeForDate [OF w, of "fst p" "map (\<lambda>date. (date, sunZeroData)) (map ISODate [n1..n3])"]
      indexOf_range [OF p]
    unfolding t by auto
next
  case False
  then obtain results where r: "provider (fst p) n1 n3 = Inr results"
    and c: "\<forall>n. n1 \<le> n \<and> n \<le> n3 \<longrightarrow> ISODate n \<in> fst ` set results"
    using f unfolding fetchSucceeds_def by blast
  have "ISODate n1 \<in> fst ` set results" using c le by simp
  then have ne: "results \<noteq> []" by auto
  have t: "t = foldl (storeForDate (fst p)) (fst acc) results"
    using ne by (simp add: t_def fetchPlanet_def False Let_def fetchPlanetData_days [OF le zone] r)
  show ?thesis
    using foldl_storeForDate [OF w, of "fst p" results] indexOf_range [OF p] c
    unfolding t by blast
qed

lemma foldl_fetchPlanet:
  assumes le: "n1 \<le> n3"
    and f: "\<forall>p \<in> set PLANET_IDS. fst p \<noteq> ''10'' \<longrightarrow> fetchSucceeds provider n1 n3 (fst p)"
    and zone: "offsetBefore zone = offsetAfter zone" "0 \<le> offsetBefore zone"
      "offsetBefore zone < msPerDay"
    and ps: "set ps \<subseteq> set PLANET_IDS"
    and w: "rowsWithin (fst acc)"
    and t: "t = fst (foldl (\<lambda>acc planet. fetchPlanet zone provider (ISODate n1) (ISODate n3)
                        (map ISODate [n1..n3]) planet acc) acc ps)"
  shows "rowsWithin t
       \<and> (\<forall>d j. rowFilled (fst acc) d j \<longrightarrow> rowFilled t d j)
       \<and> (\<forall>p \<in> set ps. \<forall>n. n1 \<le> n \<and> n \<le> n3 \<longrightarrow>
             rowFilled t (ISODate n) (nat (indexOf (fst p))))"
  using ps w t
proof (induction ps arbitrary: acc)
  case Nil
  then show ?case by simp
next
  case (Cons p ps)
  have p: "p \<in> set PLANET_IDS" and ps: "set ps \<subseteq> set PLANET_IDS"
    using Cons.prems(1) by auto
  have fp: "fst p \<noteq> ''10'' \<longrightarrow> fetchSucceeds provider n1 n3 (fst p)"
    using f p by blast
  let ?acc = "fetchPlanet zone provider (ISODate n1) (ISODate n3) (map ISODate [n1..n3]) p acc"
  note one = fetchPlanet_fills [OF Cons.prems(2) p le fp zone]
  have t': "t = fst (foldl (\<lambda>acc planet. fetchPlanet zone provider (ISODate n1) (ISODate n3)
                        (map ISODate [n1..n3]) planet acc) ?acc ps)"
    using Cons.prems(3) by simp
  note IH = Cons.IH [OF ps conjunct1 [OF one] t']
  show ?case
    using one IH by simp
qed

lemma fetchAndStore_table:
  assumes "\<not> rejecting st"
  shows "\<exists>st1. fst (fetchAndStoreDataForRange zone provider st startDateStr endDateStr) = Inr st1
     \<and> \<not> rejecting st1
     \<and> planet_data_v2 st1 = Some (fst (foldl
          (\<lambda>acc planet. fetchPlanet zone provider startDateStr endDateStr
                           (getDatesBetween zone startDateStr endDateStr) planet acc)
          (case planet_data_v2 st of Some d \<Rightarrow> d | None \<Rightarrow> [], []) PLANET_IDS))"
  using assms
  by (simp add: fetchAndStoreDataForRange_def Let_def getAllStoredData_def saveAllData_def
      setMetaData_def)

lemma rowComplete:
  assumes w: "rowsWithin t" and f: "\<forall>k < 9. rowFilled t date k"
  shows "\<exists>arr. map_of t date = Some arr \<and> length arr = 9 \<and> \<not> list_ex (\<lambda>data. data = None) arr"
proof -
  from f have "rowFilled t date 8" by simp
  then obtain arr where a: "map_of t date = Some arr" and l: "8 < length arr"
    by (auto simp: rowFilled_def split: option.splits)
  have len: "length arr = 9"
    using w a l unfolding rowsWithin_def by fastforce
  have "arr ! k \<noteq> None" if "k < 9" for k
    using f that a by (auto simp: rowFilled_def)
  then have "\<not> list_ex (\<lambda>data. data = None) arr"
    using len by (auto simp: list_ex_iff in_set_conv_nth)
  then show ?thesis using a len by simp
qed

section \<open>Pruning and the availability check\<close>

lemma map_of_filter_key:
  "map_of (filter (\<lambda>kv. P (fst kv)) al) k = (if P k then map_of al k else None)"
  by (induction al) auto

lemma removeDataBeforeDate_data:
  assumes "\<not> rejecting st" "planet_data_v2 st = Some allData"
  shows "getAllStoredData (removeDataBeforeDate st cutoffDateStr)
     = Some (filter (\<lambda>kv. getTime (newDate cutoffDateStr) \<le> getTime (newDate (fst kv))) allData)"
  using assms
  by (simp add: removeDataBeforeDate_def getAllStoredData_def saveAllData_def getMetaData_def
      setMetaData_def Let_def split: option.splits)

lemma checkDataAvailability_days:
  assumes "getAllStoredData st = Some allData" and fixed: "offsetBefore zone = offsetAfter zone"
  shows "checkDataAvailability zone st (ISODate a) (ISODate b) \<longleftrightarrow>
     (\<forall>n. a \<le> n \<and> n \<le> b \<longrightarrow>
        (\<exists>arr. map_of allData (ISODate n) = Some arr \<and> length arr = 9
               \<and> \<not> list_ex (\<lambda>data. data = None) arr))"
proof -
  have "checkDataAvailability zone st (ISODate a) (ISODate b) \<longleftrightarrow>
     (\<forall>n \<in> {a..b}. case map_of allData (ISODate n) of None \<Rightarrow> False
         | Some arr \<Rightarrow> length arr = 9 \<and> \<not> list_ex (\<lambda>data. data = None) arr)"
    using assms(1) by (simp add: checkDataAvailability_def datesLoop_days [OF fixed] list_all_iff)
  also have "\<dots> \<longleftrightarrow> (\<forall>n. a \<le> n \<and> n \<le> b \<longrightarrow>
        (\<exists>arr. map_of allData (ISODate n) = Some arr \<and> length arr = 9
               \<and> \<not> list_ex (\<lambda>data. data = None) arr))"
    unfolding Ball_def atLeastAtMost_iff
    by (intro all_cong1 imp_cong refl) (simp split: option.splits)
  finally show ?thesis .
qed

text \<open>
  In a zone whose offset never changes, east of Greenwich or on it, the sequence
  holds: after the range from \<open>n1\<close> to \<open>n3\<close> is fetched with every request
  answered for every day, into a working store whose arrays have at most nine slots,
  and the days before \<open>n2\<close> are pruned, the days \<open>n2\<close> to \<open>n3\<close> are available
  and the days \<open>n1\<close> to \<open>n2\<close> are not.
\<close>

lemma prune_after_extend_fixed_zone:
  assumes "n1 < n2" "n2 < n3"
    and zone: "offsetBefore zone = offsetAfter zone" "0 \<le> offsetBefore zone"
      "offsetBefore zone < msPerDay"
    and nr: "\<not> rejecting st"
    and rows: "\<forall>row \<in> set (case planet_data_v2 st of Some d \<Rightarrow> d | None \<Rightarrow> []). length (snd row) \<le> 9"
    and f: "\<forall>planet \<in> set PLANET_IDS. fst planet \<noteq> ''10'' \<longrightarrow> fetchSucceeds provider n1 n3 (fst planet)"
  shows "\<exists>st1. fst (fetchAndStoreDataForRange zone provider st (ISODate n1) (ISODate n3)) = Inr st1
      \<and> checkDataAvailability zone (removeDataBeforeDate st1 (ISODate n2)) (ISODate n2) (ISODate n3)
      \<and> \<not> checkDataAvailability zone (removeDataBeforeDate st1 (ISODate n2)) (ISODate n1) (ISODate n2)"
proof -
  define t0 where "t0 = (case planet_data_v2 st of Some d \<Rightarrow> d | None \<Rightarrow> [])"
  define t1 where "t1 = fst (foldl
          (\<lambda>acc planet. fetchPlanet zone provider (ISODate n1) (ISODate n3)
                           (map ISODate [n1..n3]) planet acc) (t0, []) PLANET_IDS)"
  obtain st1 where r: "fst (fetchAndStoreDataForRange zone provider st (ISODate n1) (ISODate n3)) = Inr st1"
    and nr1: "\<not> rejecting st1" and d1: "planet_data_v2 st1 = Some t1"
    using fetchAndStore_table [OF nr, of zone provider "ISODate n1" "ISODate n3"]
    unfolding t1_def t0_def getDatesBetween_days [OF zone(1)] by blast
  have w0: "rowsWithin (fst (t0, [] :: Request list))"
    using rows unfolding rowsWithin_def t0_def by (auto dest!: map_of_SomeD)
  have le: "n1 \<le> n3" using assms by simp
  note fill = foldl_fetchPlanet [OF le f zone subset_refl w0 t1_def]
  have w1: "rowsWithin t1" using fill by blast
  have filled: "rowFilled t1 (ISODate n) k" if "n1 \<le> n" "n \<le> n3" "k < 9" for n k
    using fill that indexOf_onto [OF that(3)] by blast
  define kept where "kept = filter (\<lambda>kv. getTime (newDate (ISODate n2)) \<le> getTime (newDate (fst kv))) t1"
  have g: "getAllStoredData (removeDataBeforeDate st1 (ISODate n2)) = Some kept"
    unfolding kept_def using nr1 d1 by (rule removeDataBeforeDate_data)
  have k: "map_of kept (ISODate n) = (if n2 \<le> n then map_of t1 (ISODate n) else None)" for n
    unfolding kept_def
    by (simp only: map_of_filter_key [where P = "\<lambda>d. getTime (newDate (ISODate n2)) \<le> getTime (newDate d)"]
        getTime_day_le)
  have "checkDataAvailability zone (removeDataBeforeDate st1 (ISODate n2)) (ISODate n2) (ISODate n3)"
    unfolding checkDataAvailability_days [OF g zone(1)]
  proof (intro allI impI)
    fix n assume n: "n2 \<le> n \<and> n \<le> n3"
    then have "\<forall>k < 9. rowFilled t1 (ISODate n) k"
      using filled assms(1) by simp
    then show "\<exists>arr. map_of kept (ISODate n) = Some arr \<and> length arr = 9
               \<and> \<not> list_ex (\<lambda>data. data = None) arr"
      using rowComplete [OF w1] n by (simp add: k)
  qed
  moreover have "\<not> checkDataAvailability zone (removeDataBeforeDate st1 (ISODate n2)) (ISODate n1) (ISODate n2)"
    unfolding checkDataAvailability_days [OF g zone(1)]
  proof
    assume "\<forall>n. n1 \<le> n \<and> n \<le> n2 \<longrightarrow>
        (\<exists>arr. map_of kept (ISODate n) = Some arr \<and> length arr = 9
               \<and> \<not> list_ex (\<lambda>data. data = None) arr)"
    then have "\<exists>arr. map_of kept (ISODate n1) = Some arr"
      using assms(1) by force
    then show False using assms(1) by (simp add: k)
  qed
  ultimately show ?thesis using r by blast
qed

lemma prune_after_extend_utc_example:
  "\<exists>st1. fst (fetchAndStoreDataForRange utc threeDays emptyStorage (ISODate 0) (ISODate 2)) = Inr st1
      \<and> checkDataAvailability utc (removeDataBeforeDate st1 (ISODate 1)) (ISODate 1) (ISODate 2)
      \<and> \<not> checkDataAvailability utc (removeDataBeforeDate st1 (ISODate 1)) (ISODate 0) (ISODate 1)"
proof -
  have "n = 0 \<or> n = 1 \<or> n = 2" if "0 \<le> n" "n \<le> 2" for n :: int
    using that by arith
  then have f: "\<forall>planet \<in> set PLANET_IDS. fst planet \<noteq> ''10'' \<longrightarrow> fetchSucceeds threeDays 0 2 (fst planet)"
    by (auto simp: fetchSucceeds_def threeDays_def)
  show ?thesis
    using prune_after_extend_fixed_zone [of 0 1 2 utc emptyStorage threeDays, OF _ _ _ _ _ _ _ f]
    by (simp add: emptyStorage_def utc_def msPerDay_def)
qed

lemma dates_dst:
  "getDatesBetween centralEurope2025 (ISODate 20176) (ISODate 20179)
     = [ISODate 20176, ISODate 20177, ISODate 20177, ISODate 20178]"
  by (simp add: getDatesBetween_def datesLoop.simps addLocalDay_def centralEurope2025_def
      toISODate_def msPerDay_def Let_def)

lemma everyDay_rows:
  "everyDay planetId 20176 20179
     = Inr [(ISODate 20176, circularOrbit), (ISODate 20177, circularOrbit),
            (ISODate 20178, circularOrbit), (ISODate 20179, circularOrbit)]"
  by (simp add: everyDay_def upto_rec1)

lemma fetchPlanetData_dst:
  "fetchPlanetData centralEurope2025 everyDay planetId (ISODate 20176) (ISODate 20179)
     = (Inr [(ISODate 20176, circularOrbit), (ISODate 20177, circularOrbit),
             (ISODate 20178, circularOrbit), (ISODate 20179, circularOrbit)],
        [(planetId, 20176, 20179)])"
  by (simp add: fetchPlanetData_def formatDateForHorizons_def localDay_def localOffset_def
      centralEurope2025_def msPerDay_def Let_def everyDay_rows)

text \<open>
  C4: if \<^verbatim>\<open>fetchAndStoreDataForRange(d1, d3)\<close> completes with every fetch of a body
  succeeding for every date of the range and \<^verbatim>\<open>removeDataBeforeDate(d2)\<close> runs
  then, with d1 < d2 < d3, \<^verbatim>\<open>checkDataAvailability(d2, d3)\<close> is true and
  \<^verbatim>\<open>checkDataAvailability(d1, d2)\<close> is false. The code does not do this where the
  range crosses the start of daylight saving time: \<^verbatim>\<open>getDatesBetween\<close> steps
  with \<^verbatim>\<open>setDate\<close> in local time and reads the day with \<^verbatim>\<open>toISOString\<close> in UTC.
  In Central European time, with d1 = 2025-03-29, d2 = 2025-03-31, d3 = 2025-04-01,
  an empty store and a provider that returns a row for every day it is asked for,
  the dates of the range are 03-29, 03-30, 03-30 and 03-31; the eight requests are
  answered and stored, the Sun is never written for 04-01, the call completes, and
  after the pruning \<^verbatim>\<open>checkDataAvailability(d2, d3)\<close> is false.
\<close>

theorem extend_across_dst_unavailable:
  "fetchAndStoreDataForRange centralEurope2025 everyDay emptyStorage (ISODate 20176) (ISODate 20179)
     = (Inr afterExtend,
        [(''199'', 20176, 20179), (''299'', 20176, 20179), (''399'', 20176, 20179),
         (''499'', 20176, 20179), (''599'', 20176, 20179), (''699'', 20176, 20179),
         (''799'', 20176, 20179), (''899'', 20176, 20179)])
   \<and> getDatesBetween centralEurope2025 (ISODate 20176) (ISODate 20179)
     = [ISODate 20176, ISODate 20177, ISODate 20177, ISODate 20178]
   \<and> getDatesBetween centralEurope2025 (ISODate 20178) (ISODate 20179)
     = [ISODate 20178, ISODate 20179]
   \<and> \<not> checkDataAvailability centralEurope2025
         (removeDataBeforeDate afterExtend (ISODate 20178)) (ISODate 20178) (ISODate 20179)"
proof (intro conjI)
  show "fetchAndStoreDataForRange centralEurope2025 everyDay emptyStorage (ISODate 20176) (ISODate 20179)
     = (Inr afterExtend,
        [(''199'', 20176, 20179), (''299'', 20176, 20179), (''399'', 20176, 20179),
         (''499'', 20176, 20179), (''599'', 20176, 20179), (''699'', 20176, 20179),
         (''799'', 20176, 20179), (''899'', 20176, 20179)])"
    by code_simp
  show "getDatesBetween centralEurope2025 (ISODate 20176) (ISODate 20179)
     = [ISODate 20176, ISODate 20177, ISODate 20177, ISODate 20178]"
    by (rule dates_dst)
  show "getDatesBetween centralEurope2025 (ISODate 20178) (ISODate 20179)
     = [ISODate 20178, ISODate 20179]"
    by code_simp
  show "\<not> checkDataAvailability centralEurope2025
         (removeDataBeforeDate afterExtend (ISODate 20178)) (ISODate 20178) (ISODate 20179)"
    by code_simp
qed

section \<open>Invalid ranges\<close>

lemma getDatesBetween_invalid:
  assumes "newDate startDateStr = None \<or> newDate endDateStr = None
           \<or> getTime (newDate endDateStr) < getTime (newDate startDateStr)"
  shows "getDatesBetween zone startDateStr endDateStr = []"
  using assms by (auto simp: getDatesBetween_def datesLoop_empty split: option.splits)

lemma fetchPlanet_malformed:
  assumes "newDate startDateStr = None \<or> newDate endDateStr = None"
  shows "fetchPlanet zone provider startDateStr endDateStr [] planet acc = acc"
  using assms
  by (auto simp: fetchPlanet_def fetchPlanetData_def formatDateForHorizons_def Let_def
      split: option.splits)

lemma foldl_fetchPlanet_malformed:
  assumes "newDate startDateStr = None \<or> newDate endDateStr = None"
  shows "foldl (\<lambda>acc planet. fetchPlanet zone provider startDateStr endDateStr [] planet acc) acc ps = acc"
  by (induction ps arbitrary: acc) (simp_all add: fetchPlanet_malformed [OF assms])

lemma fetchPlanet_swapped:
  assumes "newDate startDateStr = Some s" "newDate endDateStr = Some e" "e < s"
    and "fst planet \<noteq> ''10''"
  shows "fetchPlanet zone provider startDateStr endDateStr [] planet acc
     = (case provider (fst planet) (localDay zone e) (localDay zone s) of
          Inl err \<Rightarrow> fst acc
        | Inr rows \<Rightarrow> foldl (storeForDate (fst planet)) (fst acc) rows,
        snd acc @ [(fst planet, localDay zone e, localDay zone s)])"
  using assms
  by (auto simp: fetchPlanet_def fetchPlanetData_def formatDateForHorizons_def Let_def
      split: sum.splits)

lemma fetchPlanet_sun_empty:
  "fst planet = ''10'' \<Longrightarrow> fetchPlanet zone provider startDateStr endDateStr [] planet acc = acc"
  by (simp add: fetchPlanet_def Let_def)

lemma foldl_fetchPlanet_swapped:
  assumes "newDate startDateStr = Some s" "newDate endDateStr = Some e" "e < s"
    and "\<forall>planet \<in> set ps. fst planet \<noteq> ''10''"
  shows "foldl (\<lambda>acc planet. fetchPlanet zone provider startDateStr endDateStr [] planet acc) acc ps
     = (foldl (\<lambda>tbl planet. case provider (fst planet) (localDay zone e) (localDay zone s) of
                             Inl err \<Rightarrow> tbl
                           | Inr rows \<Rightarrow> foldl (storeForDate (fst planet)) tbl rows) (fst acc) ps,
        snd acc @ map (\<lambda>planet. (fst planet, localDay zone e, localDay zone s)) ps)"
  using assms(4)
proof (induction ps arbitrary: acc)
  case Nil
  then show ?case by simp
next
  case (Cons p ps)
  then show ?case
    by (simp add: fetchPlanet_swapped [OF assms(1-3)])
qed

lemma updateMeta_invalid:
  assumes "newDate startDateStr = None \<or> newDate endDateStr = None
           \<or> getTime (newDate endDateStr) < getTime (newDate startDateStr)"
  shows "updateMeta None startDateStr endDateStr
     = \<lparr>lastCleanup = startDateStr,
        dataRange = Some \<lparr>range_start = startDateStr, range_end = startDateStr\<rparr>\<rparr>"
proof -
  have "\<not> getTime (newDate startDateStr) < getTime (newDate startDateStr)"
    by (cases "newDate startDateStr") simp_all
  moreover have "\<not> getTime (newDate startDateStr) < getTime (newDate endDateStr)"
    using assms by (cases "newDate startDateStr"; cases "newDate endDateStr") auto
  ultimately show ?thesis
    by (simp add: updateMeta_def Let_def)
qed

text \<open>
  C2, as stated: for an end date before the start date or a malformed date string,
  \<^verbatim>\<open>fetchAndStoreDataForRange\<close> rejects the request before any fetch and the caller
  gets a validation failure. It fails for the range from day 10 back to day 5 on an
  empty store: the eight bodies other than the Sun are requested, with the two dates
  swapped, and the call completes, having saved the table and the metadata.
\<close>

theorem invalid_range_counterexample:
  "fetchAndStoreDataForRange utc noRows emptyStorage (ISODate 10) (ISODate 5)
     = (Inr \<lparr>planet_data_v2 = Some [],
             planet_data_meta_v2 = Some \<lparr>lastCleanup = ISODate 10,
               dataRange = Some \<lparr>range_start = ISODate 10, range_end = ISODate 10\<rparr>\<rparr>,
             rejecting = False\<rparr>,
        [(''199'', 5, 10), (''299'', 5, 10), (''399'', 5, 10), (''499'', 5, 10),
         (''599'', 5, 10), (''699'', 5, 10), (''799'', 5, 10), (''899'', 5, 10)])"
  by code_simp

text \<open>
  C2, amended: for an end date before the start date or a malformed date string, and a
  store that works, \<^verbatim>\<open>fetchAndStoreDataForRange\<close> completes without a failure and
  saves the table and the metadata. With a malformed date no request is sent (every
  call of \<^verbatim>\<open>fetchPlanetData\<close> throws and is caught) and the table that is saved is
  the stored one (empty when there was none). With the end before the start each of
  the eight bodies other than the Sun is requested once, with the two dates swapped,
  and the table that is saved is the stored one with the rows of the answers stored
  in it. The metadata that is saved is \<^verbatim>\<open>updateMeta\<close> of the stored metadata and the
  two strings of the caller; where there was none, the start string, malformed or
  not, becomes the last cleanup and both ends of the recorded range.
\<close>

theorem invalid_range_not_rejected:
  assumes nr: "\<not> rejecting st"
    and inv: "newDate startDateStr = None \<or> newDate endDateStr = None
              \<or> getTime (newDate endDateStr) < getTime (newDate startDateStr)"
  shows "fetchAndStoreDataForRange zone provider st startDateStr endDateStr
       = (case (newDate startDateStr, newDate endDateStr) of
            (Some s, Some e) \<Rightarrow>
               (Inr (st\<lparr>planet_data_v2 :=
                          Some (mergeFetched provider (localDay zone e) (localDay zone s)
                                  (storedTable st)),
                        planet_data_meta_v2 :=
                          Some (updateMeta (planet_data_meta_v2 st) startDateStr endDateStr)\<rparr>),
                map (\<lambda>planet. (fst planet, localDay zone e, localDay zone s)) (tl PLANET_IDS))
          | _ \<Rightarrow>
               (Inr (st\<lparr>planet_data_v2 := Some (storedTable st),
                        planet_data_meta_v2 :=
                          Some (updateMeta (planet_data_meta_v2 st) startDateStr endDateStr)\<rparr>),
                []))
     \<and> updateMeta None startDateStr endDateStr
       = \<lparr>lastCleanup = startDateStr,
          dataRange = Some \<lparr>range_start = startDateStr, range_end = startDateStr\<rparr>\<rparr>"
proof (rule conjI)
  note dates = getDatesBetween_invalid [OF inv]
  show "fetchAndStoreDataForRange zone provider st startDateStr endDateStr
       = (case (newDate startDateStr, newDate endDateStr) of
            (Some s, Some e) \<Rightarrow>
               (Inr (st\<lparr>planet_data_v2 :=
                          Some (mergeFetched provider (localDay zone e) (localDay zone s)
                                  (storedTable st)),
                        planet_data_meta_v2 :=
                          Some (updateMeta (planet_data_meta_v2 st) startDateStr endDateStr)\<rparr>),
                map (\<lambda>planet. (fst planet, localDay zone e, localDay zone s)) (tl PLANET_IDS))
          | _ \<Rightarrow>
               (Inr (st\<lparr>planet_data_v2 := Some (storedTable st),
                        planet_data_meta_v2 :=
                          Some (updateMeta (planet_data_meta_v2 st) startDateStr endDateStr)\<rparr>),
                []))"
  proof (cases "newDate startDateStr = None \<or> newDate endDateStr = None")
    case True
    then show ?thesis
      using nr
      by (auto simp: fetchAndStoreDataForRange_def Let_def dates foldl_fetchPlanet_malformed
          getAllStoredData_def saveAllData_def getMetaData_def setMetaData_def storedTable_def
          split: option.splits)
  next
    case False
    then obtain s e where se: "newDate startDateStr = Some s" "newDate endDateStr = Some e"
      by auto
    then have lt: "e < s" using inv by simp
    have sun: "PLANET_IDS = (''10'', ''Sun'') # tl PLANET_IDS"
      by (simp add: PLANET_IDS_def)
    have rest: "\<forall>planet \<in> set (tl PLANET_IDS). fst planet \<noteq> ''10''"
      by (simp add: PLANET_IDS_def)
    have "foldl (\<lambda>acc planet. fetchPlanet zone provider startDateStr endDateStr [] planet acc)
             (storedTable st, []) PLANET_IDS
        = (mergeFetched provider (localDay zone e) (localDay zone s) (storedTable st),
           map (\<lambda>planet. (fst planet, localDay zone e, localDay zone s)) (tl PLANET_IDS))"
      by (subst sun)
         (simp add: fetchPlanet_sun_empty foldl_fetchPlanet_swapped [OF se lt rest]
            mergeFetched_def)
    then show ?thesis
      using nr
      by (simp add: fetchAndStoreDataForRange_def Let_def dates se
          getAllStoredData_def saveAllData_def getMetaData_def setMetaData_def storedTable_def)
  qed
  show "updateMeta None startDateStr endDateStr
       = \<lparr>lastCleanup = startDateStr,
          dataRange = Some \<lparr>range_start = startDateStr, range_end = startDateStr\<rparr>\<rparr>"
    by (rule updateMeta_invalid [OF inv])
qed

theorem invalid_range_not_rejected_witness:
  "\<not> rejecting emptyStorage \<and> newDate (Malformed ''soon'') = None \<and>
   fetchAndStoreDataForRange utc everyDay emptyStorage (Malformed ''soon'') (ISODate 5)
     = (Inr \<lparr>planet_data_v2 = Some [],
             planet_data_meta_v2 = Some \<lparr>lastCleanup = Malformed ''soon'',
               dataRange = Some \<lparr>range_start = Malformed ''soon'',
                                  range_end = Malformed ''soon''\<rparr>\<rparr>,
             rejecting = False\<rparr>,
        [])"
  using invalid_range_not_rejected [of emptyStorage "Malformed ''soon''" "ISODate 5" utc everyDay]
  by (simp add: emptyStorage_def storedTable_def)

section \<open>Missing data in a frame\<close>

lemma trunc_of_int [simp]: "trunc (of_int k) = k"
  by (simp add: trunc_def)

lemma calculateInterpolatedPosition_valid:
  "\<exists>r. calculateInterpolatedPosition zone table index (Some t) = Inr r"
  by (simp add: calculateInterpolatedPosition_def Let_def split: option.splits)

lemma calculateInterpolatedPosition_missing:
  "elementsFor table (toISODate t) index = None \<Longrightarrow>
   calculateInterpolatedPosition zone table index (Some t) = Inr None"
  by (simp add: calculateInterpolatedPosition_def Let_def)

lemma newTargetPosFor_missing:
  assumes miss: "elementsFor table (toISODate t) index = None"
    and ref: "earthOriginalPositionAt zone table earthIndex (Some t) = Inr earthOriginalPosition"
  shows "newTargetPosFor zone table (Some t) earthIndex earthOriginalPosition index body
           = Inr (transformToGeocentricVisualization (body_name body) origin earthOriginalPosition)"
proof -
  note 1 = calculateInterpolatedPosition_missing [OF miss, of zone]
  have "planetPositionOrDefault zone table (Some t) earthIndex earthOriginalPosition index = Inr origin"
  proof (cases "index = earthIndex")
    case True
    then have "earthOriginalPosition = origin"
      using ref 1 by (simp add: earthOriginalPositionAt_def)
    then show ?thesis using True by (simp add: planetPositionOrDefault_def)
  next
    case False
    then show ?thesis using 1 by (simp add: planetPositionOrDefault_def)
  qed
  then show ?thesis
    by (simp add: newTargetPosFor_def transformPlanetPosition_def)
qed

text \<open>
  For a body whose name is not an inherited key the step of the frame does what the
  sentence says: with no elements for the body on the date of the instant, the cache
  entry of the body gets the transform of the origin as its target (and as its
  position, when the entry is new), and the spring moves the entry towards it.
\<close>

lemma updateBody_missing:
  assumes miss: "elementsFor table (toISODate t) index = None"
    and ref: "earthOriginalPositionAt zone table earthIndex (Some t) = Inr earthOriginalPosition"
    and name: "body_name body \<notin> set inheritedKeys"
  shows "updateBody zone table (Some t) deltaTime earthIndex earthOriginalPosition (index, body) acc
     = (let newTargetPos =
              transformToGeocentricVisualization (body_name body) origin earthOriginalPosition;
            cached = (case map_of (fst acc) (body_name body) of
                        None \<Rightarrow> \<lparr>target = newTargetPos, current = newTargetPos,
                                  velocity = \<lparr>px = Fin 0, py = Fin 0, pz = Fin 0\<rparr>\<rparr>
                      | Some c \<Rightarrow> c\<lparr>target := newTargetPos\<rparr>);
            cached' = springStep body deltaTime cached
        in Inr (AList.update (body_name body) cached' (fst acc),
                AList.update (body_name body) (current cached') (snd acc)))"
  using name by (simp add: updateBody_def Let_def newTargetPosFor_missing [OF miss ref])


lemma updateBody_valid:
  assumes "body_name (snd entry) \<notin> set inheritedKeys"
  shows "\<exists>acc'. updateBody zone table (Some t) deltaTime earthIndex earthOriginalPosition entry acc = Inr acc'"
proof -
  obtain r where "calculateInterpolatedPosition zone table (fst entry) (Some t) = Inr r"
    using calculateInterpolatedPosition_valid by blast
  then show ?thesis
    using assms
    by (simp add: updateBody_def newTargetPosFor_def planetPositionOrDefault_def Let_def)
qed

lemma forEachBody_valid:
  assumes "\<forall>entry \<in> set entries. body_name (snd entry) \<notin> set inheritedKeys"
  shows "\<exists>acc'. forEachBody (updateBody zone table (Some t) deltaTime earthIndex earthOriginalPosition) entries acc = Inr acc'"
  using assms
proof (induction entries arbitrary: acc)
  case Nil
  then show ?case by simp
next
  case (Cons entry entries)
  from Cons.prems have "body_name (snd entry) \<notin> set inheritedKeys"
    by simp
  from updateBody_valid [OF this]
  obtain acc1 where "updateBody zone table (Some t) deltaTime earthIndex earthOriginalPosition entry acc = Inr acc1"
    by blast
  then show ?case using Cons.IH [of acc1] Cons.prems by simp
qed



section \<open>The end of the animation\<close>

lemma useFrame_finalize:
  assumes "readyToAnimate props" "isAnimationActive st" "\<not> totalMsOf props \<le> Fin 0"
    and "totalMsOf props \<le> elapsedMsOf props (accumulate (Math_min delta (Fin 0.1)) st)"
  shows "useFrame zone props delta now st
     = Inr (finalizeAnimation props (accumulate (Math_min delta (Fin 0.1)) st))"
  using assms by (simp add: useFrame_def Let_def)

lemma useFrame_complete:
  assumes "\<not> isAnimationActive st" "isAnimationComplete st"
  shows "\<exists>calls. useFrame zone props delta now st = Inr (st, calls)"
  using assms by (simp add: useFrame_def Let_def)

lemma earth_mid:
  "calculateInterpolatedPosition utc twoDayTable 1 (Some 57600000)
     = Inr (Some \<lparr>px = Fin (5 / 3), py = Fin 0, pz = Fin 0\<rparr>)"
  by (simp add: calculateInterpolatedPosition_def twoDayTable_def elementsFor_def toISODate_def
      msPerDay_def addLocalDay_def utc_def Let_def position_circularOrbit position_wideOrbit)

lemma sun_mid:
  "calculateInterpolatedPosition utc twoDayTable 0 (Some 57600000)
     = Inr (Some \<lparr>px = NaN, py = NaN, pz = NaN\<rparr>)"
  by (simp add: calculateInterpolatedPosition_def twoDayTable_def elementsFor_def toISODate_def
      msPerDay_def addLocalDay_def utc_def Let_def position_sunZeroData)

lemma earth_end:
  "earthOriginalPositionAt utc twoDayTable 1 (Some 86400000) = Inr \<lparr>px = Fin 2, py = Fin 0, pz = Fin 0\<rparr>"
  by (simp add: earthOriginalPositionAt_def calculateInterpolatedPosition_def twoDayTable_def
      elementsFor_def toISODate_def msPerDay_def addLocalDay_def utc_def Let_def position_wideOrbit)

lemma sun_end:
  "newTargetPosFor utc twoDayTable (Some 86400000) 1 \<lparr>px = Fin 2, py = Fin 0, pz = Fin 0\<rparr> 0 sunBody
     = Inr \<lparr>px = Fin (- (9 / 50000000)), py = Fin 0, pz = Fin 0\<rparr>"
  by (simp add: newTargetPosFor_def planetPositionOrDefault_def calculateInterpolatedPosition_def
      twoDayTable_def elementsFor_def toISODate_def msPerDay_def addLocalDay_def utc_def Let_def position_sunZeroData sunBody_def
      transformPlanetPosition_def transformToGeocentricVisualization_def
      ORBIT_VISUALIZATION_SCALE_def)

lemma first_frame:
  "useFrame utc shortAnimation (Fin (1 / 10)) (Fin 1000)
       (renderHandler shortAnimation (initialState shortAnimation True))
     = Inr (afterFirstFrame, [DateChange (Some 57600000)])"
  by (simp add: useFrame_def shortAnimation_def initialState_def renderHandler_def
      totalMsOf_def accumulate_def
      elapsedMsOf_def Let_def trunc_def earthOriginalPositionAt_def earth_mid sun_mid
      updateBody_def newTargetPosFor_def planetPositionOrDefault_def sunBody_def earthBody_def
      transformPlanetPosition_def transformToGeocentricVisualization_def
      ORBIT_VISUALIZATION_SCALE_def springStep_def afterFirstFrame_def sunShown_def origin_def
      positionUpdates_def inheritedKeys_def upt_rec)

lemma second_frame_reach:
  "totalMsOf shortAnimation \<le> elapsedMsOf shortAnimation (accumulate (Math_min (Fin (1 / 10)) (Fin 0.1)) afterFirstFrame)"
  by (simp add: totalMsOf_def elapsedMsOf_def accumulate_def shortAnimation_def afterFirstFrame_def Let_def)

text \<open>
  C3, as stated: when the accumulated mapped time reaches the total span, the handler
  sets the current date to the end date, snaps every body to its exact position of
  the end date, bypassing the spring, and stops advancing time. The part on the
  positions fails on the short animation: its second frame ends the animation and
  leaves the Sun where the first frame put it, at x = -1.5e-7, while the position
  of the Sun for the end date is x = -1.8e-7.
\<close>

theorem animation_end_counterexample:
  "useFrame utc shortAnimation (Fin (1 / 10)) (Fin 1000)
       (renderHandler shortAnimation (initialState shortAnimation True))
     = Inr (afterFirstFrame, [DateChange (Some 57600000)])
   \<and> useFrame utc shortAnimation (Fin (1 / 10)) (Fin 1100) afterFirstFrame
     = Inr (afterSecondFrame, [DateChange (Some 86400000)])
   \<and> renderedPosition afterSecondFrame ''Sun'' = \<lparr>px = Fin (- (3 / 20000000)), py = Fin 0, pz = Fin 0\<rparr>
   \<and> earthOriginalPositionAt utc twoDayTable 1 (Some 86400000) = Inr \<lparr>px = Fin 2, py = Fin 0, pz = Fin 0\<rparr>
   \<and> newTargetPosFor utc twoDayTable (Some 86400000) 1 \<lparr>px = Fin 2, py = Fin 0, pz = Fin 0\<rparr> 0 sunBody
     = Inr \<lparr>px = Fin (- (9 / 50000000)), py = Fin 0, pz = Fin 0\<rparr>
   \<and> Inr (renderedPosition afterSecondFrame ''Sun'')
     \<noteq> newTargetPosFor utc twoDayTable (Some 86400000) 1 \<lparr>px = Fin 2, py = Fin 0, pz = Fin 0\<rparr> 0 sunBody"
proof -
  have "useFrame utc shortAnimation (Fin (1 / 10)) (Fin 1100) afterFirstFrame
     = Inr (afterSecondFrame, [DateChange (Some 86400000)])"
    by (simp add: useFrame_def shortAnimation_def totalMsOf_def accumulate_def
      elapsedMsOf_def Let_def afterFirstFrame_def afterSecondFrame_def finalizeAnimation_def
      trunc_def)
  moreover have "renderedPosition afterSecondFrame ''Sun'' = \<lparr>px = Fin (- (3 / 20000000)), py = Fin 0, pz = Fin 0\<rparr>"
    by (simp add: renderedPosition_def afterSecondFrame_def afterFirstFrame_def sunShown_def)
  ultimately show ?thesis
    using first_frame earth_end sun_end by simp
qed

text \<open>
  C3, amended: when the accumulated mapped time reaches or exceeds the total span (the
  handler ready and active, a valid start date before a valid end date), the frame
  sets the current date to the exact end date and reports it, leaves the position of
  every body and the spring state as they are, and ends the session: the animation
  is no longer active, it is complete, and no later frame changes the state.
\<close>

theorem animation_end_keeps_positions:
  assumes ready: "readyToAnimate props" and active: "isAnimationActive st"
    and dates: "startDate props = Some s" "endDate props = Some e" "s < e"
    and reach: "totalMsOf props \<le> elapsedMsOf props (accumulate (Math_min delta (Fin 0.1)) st)"
  shows "\<exists>st'. useFrame zone props delta now st
            = Inr (st', DateChange (endDate props)
                        # (if onTextureChange props then [TextureChange] else []))
       \<and> currentDate st' = endDate props \<and> currentDateRef st' = endDate props
       \<and> allPlanetPositions st' = allPlanetPositions st
       \<and> cachedPositionsRef st' = cachedPositionsRef st
       \<and> \<not> isAnimationActive st' \<and> isAnimationComplete st'
       \<and> (\<forall>delta' now'. \<exists>calls. useFrame zone props delta' now' st' = Inr (st', calls))"
proof -
  define st' where "st' = fst (finalizeAnimation props (accumulate (Math_min delta (Fin 0.1)) st))"
  have pos: "\<not> totalMsOf props \<le> Fin 0"
    using dates by (simp add: totalMsOf_def)
  have fin: "newDateOfNumber (getTime (endDate props)) = endDate props"
    using dates by simp
  have 1: "useFrame zone props delta now st
            = Inr (st', DateChange (endDate props)
                        # (if onTextureChange props then [TextureChange] else []))"
    unfolding useFrame_finalize [OF ready active pos reach] st'_def
    by (simp add: finalizeAnimation_def Let_def fin)
  have 2: "currentDate st' = endDate props" "currentDateRef st' = endDate props"
    "allPlanetPositions st' = allPlanetPositions st"
    "cachedPositionsRef st' = cachedPositionsRef st"
    "\<not> isAnimationActive st'" "isAnimationComplete st'"
    by (simp_all add: st'_def finalizeAnimation_def Let_def fin accumulate_def)
  have 3: "\<exists>calls. useFrame zone props delta' now' st' = Inr (st', calls)" for delta' now'
    using 2(5,6) by (rule useFrame_complete)
  show ?thesis using 1 2 3 by blast
qed

theorem animation_end_keeps_positions_witness:
  "readyToAnimate shortAnimation \<and> isAnimationActive afterFirstFrame \<and>
   (\<exists>st'. useFrame utc shortAnimation (Fin (1 / 10)) (Fin 1100) afterFirstFrame
            = Inr (st', [DateChange (Some 86400000)])
       \<and> currentDate st' = Some 86400000
       \<and> allPlanetPositions st' = allPlanetPositions afterFirstFrame
       \<and> \<not> isAnimationActive st' \<and> isAnimationComplete st')"
proof -
  have "readyToAnimate shortAnimation" "isAnimationActive afterFirstFrame"
    "startDate shortAnimation = Some 0" "endDate shortAnimation = Some 86400000"
    "onTextureChange shortAnimation = False"
    by (simp_all add: shortAnimation_def afterFirstFrame_def)
  then show ?thesis
    using animation_end_keeps_positions [of shortAnimation afterFirstFrame 0 86400000 "Fin (1 / 10)" utc "Fin 1100", OF _ _ _ _ _ second_frame_reach]
    by auto
qed

end
